theory Spec2Isabelle
  imports Main
begin

section \<open>The GOG game-store adapter (src/index.ts)\<close>

text \<open>
  A shallow embedding of the class \<open>GoGLauncher\<close>.  The object is a record of its two
  private fields; every method takes the platform string (\<open>process.platform\<close>), the
  built-ins of the JavaScript runtime it calls, the state of the operating system at the
  moment of the call, and the object, and returns its promise, the object afterwards and
  the events it emitted.  A promise is modelled by the value it settles to; a method
  runs to completion before the next one starts.  The private method
  \<open>findMacOSGOGPath\<close>, which nothing calls, and \<open>launchGame\<close>, which hands the plan of
  \<open>getExecInfo\<close> to the host's \<open>runExecutable\<close>, are left out.
\<close>

subsection \<open>Constants\<close>

abbreviation BS :: char where "BS \<equiv> CHR 0x5C"
abbreviation DQ :: char where "DQ \<equiv> CHR 0x22"

definition STORE_ID :: string where
  "STORE_ID = ''gog''"

definition GOG_EXEC :: string where
  "GOG_EXEC = ''GalaxyClient.exe''"

definition REG_GOG_GAMES :: string where
  "REG_GOG_GAMES = ''SOFTWARE'' @ BS # ''WOW6432Node'' @ BS # ''GOG.com'' @ BS # ''Games''"

definition REG_GOG_CLIENT_PATHS :: string where
  "REG_GOG_CLIENT_PATHS =
     ''SOFTWARE'' @ BS # ''WOW6432Node'' @ BS # ''GOG.com'' @ BS # ''GalaxyClient'' @ BS # ''paths''"

subsection \<open>Errors, promises, events\<close>

datatype error =
    GameEntryNotFound string string  \<comment> \<open>\<open>new types.GameEntryNotFound(name, storeId)\<close>\<close>
  | Error string                     \<comment> \<open>\<open>new Error(message)\<close>\<close>
  | SystemError string string        \<comment> \<open>an error of the OS layer: \<open>err.code\<close>, \<open>err.message\<close>\<close>
  | SyntaxError string
  | TypeError string

fun err_code :: "error \<Rightarrow> string option" where
  "err_code (SystemError c m) = Some c"
| "err_code e = None"

datatype 'a promise = Resolved 'a | Rejected error

fun then_p :: "'a promise \<Rightarrow> ('a \<Rightarrow> 'b promise) \<Rightarrow> 'b promise" where
  "then_p (Resolved x) f = f x"
| "then_p (Rejected e) f = Rejected e"

fun catch_p :: "'a promise \<Rightarrow> (error \<Rightarrow> 'a promise) \<Rightarrow> 'a promise" where
  "catch_p (Resolved x) h = Resolved x"
| "catch_p (Rejected e) h = h e"

fun all2 :: "'a promise \<Rightarrow> 'b promise \<Rightarrow> ('a \<times> 'b) promise" where
  "all2 (Resolved x) (Resolved y) = Resolved (x, y)"
| "all2 (Rejected e) q = Rejected e"
| "all2 (Resolved x) (Rejected e) = Rejected e"

datatype level = Debug | Info | Warn | Err

datatype event =
    Log level string   \<comment> \<open>a call of \<open>log(level, message, ...)\<close>; the metadata is not kept\<close>
  | Call string        \<comment> \<open>an invocation of the named private method\<close>

subsection \<open>Data\<close>

record IGameStoreEntry =
  appid :: string
  name :: string
  gamePath :: string
  gameStoreId :: string

record IExecInfo =
  execPath :: string
  arguments :: "string list"

text \<open>
  What \<open>JSON.parse\<close> returns, as far as the code looks at it: \<open>null\<close> (reading a
  property of it throws), or any other value with the own properties the code reads.
  The properties read (\<open>gameId\<close>, \<open>name\<close>, \<open>title\<close>, \<open>installDirectory\<close>) are taken
  at the type the code gives them, \<open>string\<close>, when present; a number, a boolean,
  a string or an array has none of them.
\<close>

datatype json = JNull | JValue "(string \<times> string) list"

text \<open>The registry handle: a hive name, or the handle of a key opened under it.\<close>

datatype hkey = Hive string | Opened string string

record winapi =
  RegGetValue :: "hkey \<Rightarrow> string \<Rightarrow> string \<Rightarrow> error + string"
  WithRegOpen :: "hkey \<Rightarrow> string \<Rightarrow> error + hkey"
  RegEnumKeys :: "hkey \<Rightarrow> error + string list"

text \<open>
  The state of the operating system when a method runs.  A synchronous call that
  throws returns \<open>Inl\<close>; an asynchronous one returns the promise it settles to.
\<close>

record world =
  HOME :: "string option"
  existsSync :: "string \<Rightarrow> error + bool"
  stat :: "string \<Rightarrow> unit promise"
  readdir :: "string \<Rightarrow> string list promise"
  readFile :: "string \<Rightarrow> string promise"
  import_winapi :: "winapi promise"

text \<open>
  The built-ins of the runtime: \<open>path.join\<close> of the platform, \<open>JSON.parse\<close>, and
  \<open>new RegExp(source)\<close> giving the \<open>test\<close> method of the compiled expression.
\<close>

record runtime =
  path_join :: "string list \<Rightarrow> string"
  JSON_parse :: "string \<Rightarrow> error + json"
  RegExp :: "string \<Rightarrow> error + (string \<Rightarrow> bool)"

record launcher =
  mClientPath :: "string promise option"
  mCache :: "IGameStoreEntry list promise option"

subsection \<open>JavaScript operators\<close>

text \<open>\<open>a || b\<close> for a string or undefined \<open>a\<close>: the empty string is falsy.\<close>

fun js_or :: "string option \<Rightarrow> string \<Rightarrow> string" where
  "js_or None d = d"
| "js_or (Some s) d = (if s = [] then d else s)"

fun truthy :: "string option \<Rightarrow> bool" where
  "truthy None = False"
| "truthy (Some s) = (s \<noteq> [])"

text \<open>\<open>ids.join(', ')\<close>\<close>

fun join_comma :: "string list \<Rightarrow> string" where
  "join_comma [] = []"
| "join_comma [x] = x"
| "join_comma (x # y # ys) = x @ '', '' @ join_comma (y # ys)"

subsection \<open>The constructor: the discovery probe\<close>

definition unprobed :: launcher where
  "unprobed = \<lparr>mClientPath = None, mCache = None\<rparr>"

text \<open>
  On win32 the constructor only starts the import of \<open>winapi-bindings\<close> and returns with
  both fields unset; \<open>probe_settled\<close> is the callback that runs once the import has
  settled.  On darwin the two candidate paths are tested synchronously.
\<close>

definition constructor :: "string \<Rightarrow> runtime \<Rightarrow> world \<Rightarrow> launcher \<times> event list" where
  "constructor platform rt w =
     (if platform = ''win32'' then (unprobed, [])
      else if platform = ''darwin'' then
        (let standardPath = ''/Applications/GOG Galaxy.app'';
             userAppsPath = path_join rt [js_or (HOME w) [], ''Applications'', ''GOG Galaxy.app'']
         in case existsSync w standardPath of
              Inl err \<Rightarrow> (unprobed, [Log Info ''gog not found''])
            | Inr True \<Rightarrow> (unprobed\<lparr>mClientPath := Some (Resolved standardPath)\<rparr>, [])
            | Inr False \<Rightarrow>
                (case existsSync w userAppsPath of
                   Inl err \<Rightarrow> (unprobed, [Log Info ''gog not found''])
                 | Inr True \<Rightarrow> (unprobed\<lparr>mClientPath := Some (Resolved userAppsPath)\<rparr>, [])
                 | Inr False \<Rightarrow> (unprobed, [Log Info ''gog not found''])))
      else (unprobed, [Log Info ''gog not found'']))"

definition probe_settled :: "world \<Rightarrow> launcher \<Rightarrow> launcher \<times> event list" where
  "probe_settled w this =
     (case import_winapi w of
        Rejected err \<Rightarrow> (this\<lparr>mClientPath := None\<rparr>, [Log Info ''gog not found''])
      | Resolved api \<Rightarrow>
          (case RegGetValue api (Hive ''HKEY_LOCAL_MACHINE'') REG_GOG_CLIENT_PATHS ''client'' of
             Inl err \<Rightarrow> (this\<lparr>mClientPath := None\<rparr>, [Log Info ''gog not found''])
           | Inr gogPath \<Rightarrow> (this\<lparr>mClientPath := Some (Resolved gogPath)\<rparr>, [])))"

subsection \<open>The game enumerator\<close>

text \<open>One registry subkey: the three values are read in the order of the object literal.\<close>

definition windows_entry :: "winapi \<Rightarrow> hkey \<Rightarrow> string \<Rightarrow> IGameStoreEntry option \<times> event list" where
  "windows_entry api hk key =
     (case RegGetValue api hk key ''gameID'' of
        Inl err \<Rightarrow> (None, [Log Err ''gamestore-gog: failed to create game entry''])
      | Inr gid \<Rightarrow>
     (case RegGetValue api hk key ''path'' of
        Inl err \<Rightarrow> (None, [Log Err ''gamestore-gog: failed to create game entry''])
      | Inr gpath \<Rightarrow>
     (case RegGetValue api hk key ''startMenu'' of
        Inl err \<Rightarrow> (None, [Log Err ''gamestore-gog: failed to create game entry''])
      | Inr gname \<Rightarrow>
          (Some \<lparr>appid = gid, name = gname, gamePath = gpath, gameStoreId = STORE_ID\<rparr>, []))))"

text \<open>
  The executor of the inner promise: \<open>WithRegOpen\<close> calls its callback with the opened
  key; whatever the call throws (also from inside the callback) reaches the
  \<open>catch\<close>, which resolves on ENOENT and rejects otherwise.
\<close>

definition windows_executor :: "winapi \<Rightarrow> IGameStoreEntry list promise \<times> event list" where
  "windows_executor api =
     (case WithRegOpen api (Hive ''HKEY_LOCAL_MACHINE'') REG_GOG_GAMES of
        Inl err \<Rightarrow>
          (if err_code err = Some ''ENOENT'' then Resolved [] else Rejected err, [])
      | Inr hk \<Rightarrow>
          (case RegEnumKeys api hk of
             Inl err \<Rightarrow>
               (if err_code err = Some ''ENOENT'' then Resolved [] else Rejected err, [])
           | Inr keys \<Rightarrow>
               (let results = map (windows_entry api hk) keys
                in (Resolved (List.map_filter fst results), concat (map snd results)))))"

definition getGameEntriesWindows ::
  "world \<Rightarrow> launcher \<Rightarrow> IGameStoreEntry list promise \<times> event list" where
  "getGameEntriesWindows w this =
     (if mClientPath this \<noteq> None then
        (let (p, evs) =
               (case import_winapi w of
                  Rejected err \<Rightarrow> (Rejected err, [])
                | Resolved api \<Rightarrow> windows_executor api)
         in (catch_p p (\<lambda>err. Resolved []), evs))
      else (Resolved [], []))"

text \<open>The body of the loop over the game directories, for one \<open>gameId\<close>.\<close>

definition macos_candidate ::
  "runtime \<Rightarrow> world \<Rightarrow> string \<Rightarrow> string \<Rightarrow> IGameStoreEntry list \<times> event list" where
  "macos_candidate rt w gamesPath gameId =
     (let gameInfoPath = path_join rt [gamesPath, gameId, ''gameinfo'']
      in case readFile w gameInfoPath of
           Rejected err \<Rightarrow> ([], [Log Debug ''Failed to read GOG game info file''])
         | Resolved gameInfoData \<Rightarrow>
             (case JSON_parse rt gameInfoData of
                Inl parseErr \<Rightarrow> ([], [Log Err ''Failed to parse GOG game info''])
              | Inr JNull \<Rightarrow> ([], [Log Err ''Failed to parse GOG game info''])
              | Inr (JValue gameInfo) \<Rightarrow>
                  (let appid' = js_or (map_of gameInfo ''gameId'') gameId;
                       name' = js_or (map_of gameInfo ''name'')
                                 (js_or (map_of gameInfo ''title'') (''GOG Game '' @ appid'));
                       gamePath' = map_of gameInfo ''installDirectory''
                   in if truthy gamePath' then
                        (case stat w (the gamePath') of
                           Resolved u \<Rightarrow>
                             ([\<lparr>appid = appid', name = name', gamePath = the gamePath',
                                gameStoreId = STORE_ID\<rparr>], [])
                         | Rejected err \<Rightarrow> ([], [Log Debug ''GOG game directory not found'']))
                      else ([], []))))"

fun macos_loop ::
  "runtime \<Rightarrow> world \<Rightarrow> string \<Rightarrow> string list \<Rightarrow> IGameStoreEntry list \<times> event list
     \<Rightarrow> IGameStoreEntry list \<times> event list" where
  "macos_loop rt w gamesPath [] acc = acc"
| "macos_loop rt w gamesPath (gameId # rest) (gameEntries, evs) =
     (let (pushed, logged) = macos_candidate rt w gamesPath gameId
      in macos_loop rt w gamesPath rest (gameEntries @ pushed, evs @ logged))"

definition macos_body ::
  "runtime \<Rightarrow> world \<Rightarrow> IGameStoreEntry list promise \<times> event list" where
  "macos_body rt w =
     (let homeDir = js_or (HOME w) [];
          gogDataPath =
            path_join rt [homeDir, ''Library'', ''Application Support'', ''GOG.com'', ''Galaxy'']
      in case stat w gogDataPath of
           Rejected err \<Rightarrow> (Resolved [], [])
         | Resolved u \<Rightarrow>
             (let gamesPath = path_join rt [gogDataPath, ''games'']
              in case readdir w gamesPath of
                   Rejected err \<Rightarrow> (Resolved [], [])
                 | Resolved gameDirs \<Rightarrow>
                     (let (gameEntries, evs) = macos_loop rt w gamesPath gameDirs ([], [])
                      in (Resolved gameEntries, evs))))"

text \<open>The outer \<open>try\<close>/\<open>catch\<close> of the async function.\<close>

definition getGameEntriesMacOS ::
  "runtime \<Rightarrow> world \<Rightarrow> IGameStoreEntry list promise \<times> event list" where
  "getGameEntriesMacOS rt w =
     (case macos_body rt w of
        (Resolved gameEntries, evs) \<Rightarrow> (Resolved gameEntries, evs)
      | (Rejected err, evs) \<Rightarrow>
          (Resolved [], evs @ [Log Err ''Failed to get GOG games on macOS'']))"

definition getGameEntries ::
  "string \<Rightarrow> runtime \<Rightarrow> world \<Rightarrow> launcher \<Rightarrow> IGameStoreEntry list promise \<times> event list" where
  "getGameEntries platform rt w this =
     (let (p, evs) =
            (if platform = ''win32'' then getGameEntriesWindows w this
             else if platform = ''darwin'' then getGameEntriesMacOS rt w
             else (Resolved [], []))
      in (p, Call ''getGameEntries'' # evs))"

subsection \<open>The entry cache and the lookups\<close>

definition allGames ::
  "string \<Rightarrow> runtime \<Rightarrow> world \<Rightarrow> launcher
     \<Rightarrow> IGameStoreEntry list promise \<times> launcher \<times> event list" where
  "allGames platform rt w this =
     (case mCache this of
        None \<Rightarrow>
          (let (p, evs) = getGameEntries platform rt w this
           in (p, this\<lparr>mCache := Some p\<rparr>, evs))
      | Some p \<Rightarrow> (p, this, []))"

definition reloadGames ::
  "string \<Rightarrow> runtime \<Rightarrow> world \<Rightarrow> launcher \<Rightarrow> unit promise \<times> launcher \<times> event list" where
  "reloadGames platform rt w this =
     (let (p, evs) = getGameEntries platform rt w this
      in (Resolved (), this\<lparr>mCache := Some p\<rparr>, evs))"

text \<open>
  \<open>findByName\<close> compiles the expression before it calls \<open>allGames\<close>: a pattern that
  does not compile makes the method throw (\<open>Inl\<close>) and leaves the object untouched.
\<close>

definition findByName ::
  "string \<Rightarrow> runtime \<Rightarrow> world \<Rightarrow> string \<Rightarrow> launcher
     \<Rightarrow> error + (IGameStoreEntry promise \<times> launcher \<times> event list)" where
  "findByName platform rt w namePattern this =
     (case RegExp rt (''^'' @ namePattern @ ''$'') of
        Inl err \<Rightarrow> Inl err
      | Inr re_test \<Rightarrow>
          (let (p, this', evs) = allGames platform rt w this
           in Inr (then_p p (\<lambda>entries.
                     case find (\<lambda>entry. re_test (name entry)) entries of
                       None \<Rightarrow> Rejected (GameEntryNotFound namePattern STORE_ID)
                     | Some entry \<Rightarrow> Resolved entry),
                   this', evs)))"

definition getExecInfo ::
  "string \<Rightarrow> runtime \<Rightarrow> world \<Rightarrow> string \<Rightarrow> launcher
     \<Rightarrow> IExecInfo promise \<times> launcher \<times> event list" where
  "getExecInfo platform rt w appId this =
     (let (p, this', evs) = allGames platform rt w this
      in (then_p p (\<lambda>entries.
            case find (\<lambda>entry. appid entry = appId) entries of
              None \<Rightarrow> Rejected (GameEntryNotFound appId STORE_ID)
            | Some gameEntry \<Rightarrow>
                (case mClientPath this' of
                   None \<Rightarrow> Rejected (Error ''GOG Galaxy not installed'')
                 | Some clientPath \<Rightarrow>
                     then_p clientPath (\<lambda>basePath.
                       if platform = ''darwin'' then
                         Resolved \<lparr>execPath = basePath,
                           arguments = [''/gameId='' @ appid gameEntry, ''/command=runGame'',
                                        ''path='' @ DQ # gamePath gameEntry @ [DQ]]\<rparr>
                       else
                         Resolved \<lparr>execPath = path_join rt [basePath, GOG_EXEC],
                           arguments = [''/command=runGame'', ''/gameId='' @ appid gameEntry,
                                        ''path='' @ DQ # gamePath gameEntry @ [DQ]]\<rparr>))),
          this', evs))"

datatype appid_arg = One string | Many "string list"

definition findByAppId ::
  "string \<Rightarrow> runtime \<Rightarrow> world \<Rightarrow> appid_arg \<Rightarrow> launcher
     \<Rightarrow> IGameStoreEntry promise \<times> launcher \<times> event list" where
  "findByAppId platform rt w appId this =
     (let matcher = (case appId of
                       Many ids \<Rightarrow> (\<lambda>entry. appid entry \<in> set ids)
                     | One a \<Rightarrow> (\<lambda>entry. a = appid entry));
          (p, this', evs) = allGames platform rt w this
      in (then_p p (\<lambda>entries.
            case find matcher entries of
              None \<Rightarrow>
                Rejected (GameEntryNotFound
                            (case appId of Many ids \<Rightarrow> join_comma ids | One a \<Rightarrow> a) STORE_ID)
            | Some gameEntry \<Rightarrow> Resolved gameEntry),
          this', evs))"

definition getGameStorePath :: "string \<Rightarrow> runtime \<Rightarrow> launcher \<Rightarrow> string option promise" where
  "getGameStorePath platform rt this =
     (case mClientPath this of
        Some clientPath \<Rightarrow>
          then_p clientPath (\<lambda>basePath.
            if platform = ''darwin'' then Resolved (Some basePath)
            else Resolved (Some (path_join rt [basePath, ''GalaxyClient.exe''])))
      | None \<Rightarrow> Resolved None)"

definition fileExists :: "world \<Rightarrow> string \<Rightarrow> bool promise" where
  "fileExists w filePath =
     catch_p (then_p (stat w filePath) (\<lambda>u. Resolved True)) (\<lambda>err. Resolved False)"

definition identifyGame ::
  "runtime \<Rightarrow> world \<Rightarrow> string \<Rightarrow> (string \<Rightarrow> bool promise) \<Rightarrow> bool promise \<times> event list" where
  "identifyGame rt w gamePath' fallback =
     (case all2 (fileExists w (path_join rt [gamePath', ''gog.ico''])) (fallback gamePath') of
        Rejected err \<Rightarrow> (Rejected err, [])
      | Resolved (custom, fb) \<Rightarrow>
          (Resolved (custom \<or> fb),
           if custom \<noteq> fb then [Log Warn ''(gog) game identification inconclusive''] else []))"


subsection \<open>Vocabulary of the properties\<close>

text \<open>An event that is a call of the logging facility.\<close>

definition is_log :: "event \<Rightarrow> bool" where
  "is_log ev = (case ev of Log l m \<Rightarrow> True | Call f \<Rightarrow> False)"

text \<open>A snapshot that is resolved and whose entries all carry the store identifier.\<close>

definition snapshot_ok :: "IGameStoreEntry list promise \<Rightarrow> bool" where
  "snapshot_ok p = (case p of Resolved es \<Rightarrow> list_all (\<lambda>e. gameStoreId e = STORE_ID) es
                            | Rejected err \<Rightarrow> False)"

text \<open>
  The error kinds of the specification, as the code raises them: \<open>EntryNotFound\<close> is
  \<open>types.GameEntryNotFound\<close>, \<open>NotInstalled\<close> is the error of \<open>getExecInfo\<close> for an
  object without client path.
\<close>

datatype error_kind = NotInstalled | EntryNotFound | OtherError

fun kind_of :: "error \<Rightarrow> error_kind" where
  "kind_of (GameEntryNotFound q storeId) = EntryNotFound"
| "kind_of (Error m) = (if m = ''GOG Galaxy not installed'' then NotInstalled else OtherError)"
| "kind_of e = OtherError"

text \<open>The two directories \<open>getGameEntriesMacOS\<close> computes before it reads anything.\<close>

definition gogDataPath_of :: "runtime \<Rightarrow> world \<Rightarrow> string" where
  "gogDataPath_of rt w =
     path_join rt [js_or (HOME w) [], ''Library'', ''Application Support'', ''GOG.com'', ''Galaxy'']"

definition gamesPath_of :: "runtime \<Rightarrow> world \<Rightarrow> string" where
  "gamesPath_of rt w = path_join rt [gogDataPath_of rt w, ''games'']"

subsection \<open>Reachable objects\<close>

text \<open>
  The objects a program can hold: the one the constructor returns, and what the
  methods that write a field make of it.  The flag says whether the callback of the
  win32 probe has still to run.  The lookups change the object only through \<open>allGames\<close>.
\<close>

inductive reach :: "string \<Rightarrow> runtime \<Rightarrow> bool \<Rightarrow> launcher \<Rightarrow> bool"
  for platform :: string and rt :: runtime where
  reach_new: "reach platform rt (platform = ''win32'') (fst (constructor platform rt w))"
| reach_probe: "reach platform rt True this \<Longrightarrow> reach platform rt False (fst (probe_settled w this))"
| reach_allGames:
    "reach platform rt pending this \<Longrightarrow> reach platform rt pending (fst (snd (allGames platform rt w this)))"
| reach_reloadGames:
    "reach platform rt pending this \<Longrightarrow>
       reach platform rt pending (fst (snd (reloadGames platform rt w this)))"

section \<open>Models of the Node.js built-ins, for the scenarios\<close>

text \<open>
  The methods above take the built-ins as the parameter \<open>rt\<close>.  The scenarios of the
  specification need them at concrete arguments; the definitions below follow Node's
  \<open>lib/path.js\<close> (\<open>path.posix.join\<close>, \<open>path.win32.join\<close>) and the pattern grammar of
  ECMAScript for a fragment of the regular expressions.
\<close>

subsection \<open>path.join\<close>

definition isPosixPathSeparator :: "char \<Rightarrow> bool" where
  "isPosixPathSeparator c = (c = CHR ''/'')"

definition isPathSeparator :: "char \<Rightarrow> bool" where
  "isPathSeparator c = (c = CHR ''/'' \<or> c = BS)"

definition isWindowsDeviceRoot :: "char \<Rightarrow> bool" where
  "isWindowsDeviceRoot c =
     (let n = (of_char c :: nat) in (65 \<le> n \<and> n \<le> 90) \<or> (97 \<le> n \<and> n \<le> 122))"

fun segments :: "(char \<Rightarrow> bool) \<Rightarrow> string \<Rightarrow> string list" where
  "segments sep [] = [[]]"
| "segments sep (c # cs) =
     (if sep c then [] # segments sep cs
      else (case segments sep cs of
              [] \<Rightarrow> [[c]]
            | seg # segs \<Rightarrow> (c # seg) # segs))"

fun join_with :: "string \<Rightarrow> string list \<Rightarrow> string" where
  "join_with sep [] = []"
| "join_with sep [x] = x"
| "join_with sep (x # y # ys) = x @ sep @ join_with sep (y # ys)"

definition normalize_segment :: "bool \<Rightarrow> string list \<Rightarrow> string \<Rightarrow> string list" where
  "normalize_segment allowAboveRoot res seg =
     (if seg = [] \<or> seg = ''.'' then res
      else if seg = ''..'' then
        (case res of
           [] \<Rightarrow> (if allowAboveRoot then [''..''] else [])
         | lastSeg # below \<Rightarrow>
             (if lastSeg = ''..'' then (if allowAboveRoot then ''..'' # res else res) else below))
      else seg # res)"

definition normalizeString :: "string \<Rightarrow> bool \<Rightarrow> string \<Rightarrow> (char \<Rightarrow> bool) \<Rightarrow> string" where
  "normalizeString path allowAboveRoot separator isSep =
     join_with separator (rev (foldl (normalize_segment allowAboveRoot) [] (segments isSep path)))"

definition posix_normalize :: "string \<Rightarrow> string" where
  "posix_normalize path =
     (if path = [] then ''.''
      else
        (let isAbsolute = (hd path = CHR ''/'');
             trailingSeparator = (last path = CHR ''/'');
             p = normalizeString path (\<not> isAbsolute) ''/'' isPosixPathSeparator
         in if p = [] then (if isAbsolute then ''/'' else if trailingSeparator then ''./'' else ''.'')
            else (let p' = (if trailingSeparator then p @ ''/'' else p)
                  in if isAbsolute then CHR ''/'' # p' else p')))"

definition posix_join :: "string list \<Rightarrow> string" where
  "posix_join args =
     (let parts = filter (\<lambda>arg. arg \<noteq> []) args
      in if parts = [] then ''.'' else posix_normalize (join_with ''/'' parts))"

text \<open>The root of a UNC path: server, share and what follows the share.\<close>

definition unc_root :: "string \<Rightarrow> (string \<times> string \<times> string) option" where
  "unc_root path =
     (let afterSlashes = drop 2 path;
          firstPart = takeWhile (\<lambda>c. \<not> isPathSeparator c) afterSlashes;
          rest1 = dropWhile isPathSeparator (drop (length firstPart) afterSlashes);
          secondPart = takeWhile (\<lambda>c. \<not> isPathSeparator c) rest1
      in if firstPart \<noteq> [] \<and> rest1 \<noteq> []
         then Some (firstPart, secondPart, drop (length secondPart) rest1)
         else None)"

definition win32_finish :: "string \<Rightarrow> string option \<Rightarrow> bool \<Rightarrow> string \<Rightarrow> string" where
  "win32_finish path device isAbsolute rest =
     (let tail0 = (if rest \<noteq> [] then normalizeString rest (\<not> isAbsolute) [BS] isPathSeparator
                   else []);
          tail1 = (if tail0 = [] \<and> \<not> isAbsolute then ''.'' else tail0);
          tail2 = (if tail1 \<noteq> [] \<and> isPathSeparator (last path) then tail1 @ [BS] else tail1)
      in case device of
           None \<Rightarrow> (if isAbsolute then BS # tail2 else tail2)
         | Some dev \<Rightarrow> (if isAbsolute then dev @ BS # tail2 else dev @ tail2))"

definition win32_normalize :: "string \<Rightarrow> string" where
  "win32_normalize path =
     (if path = [] then ''.''
      else if length path = 1 then (if isPosixPathSeparator (hd path) then [BS] else path)
      else if isPathSeparator (path ! 0) then
        (if isPathSeparator (path ! 1) then
           (case unc_root path of
              Some (firstPart, secondPart, rest) \<Rightarrow>
                (if rest = [] then BS # BS # firstPart @ BS # secondPart @ [BS]
                 else win32_finish path (Some (BS # BS # firstPart @ BS # secondPart)) True rest)
            | None \<Rightarrow> win32_finish path None True path)
         else win32_finish path None True (drop 1 path))
      else if isWindowsDeviceRoot (path ! 0) \<and> path ! 1 = CHR '':'' then
        (if length path > 2 \<and> isPathSeparator (path ! 2)
         then win32_finish path (Some (take 2 path)) True (drop 3 path)
         else win32_finish path (Some (take 2 path)) False (drop 2 path))
      else win32_finish path None False path)"

definition win32_join :: "string list \<Rightarrow> string" where
  "win32_join args =
     (let parts = filter (\<lambda>arg. arg \<noteq> []) args
      in if parts = [] then ''.''
         else
           (let firstPart = hd parts;
                joined = join_with [BS] parts;
                needsReplace =
                  \<not> (length firstPart > 2 \<and> isPathSeparator (firstPart ! 0)
                       \<and> isPathSeparator (firstPart ! 1) \<and> \<not> isPathSeparator (firstPart ! 2));
                slashCount = length (takeWhile isPathSeparator joined)
            in win32_normalize
                 (if needsReplace \<and> slashCount \<ge> 2 then BS # drop slashCount joined
                  else joined)))"

subsection \<open>Regular expressions\<close>

text \<open>
  The fragment: pattern characters, \<open>.\<close>, the assertions \<open>^\<close> and \<open>$\<close>, alternation,
  groups \<open>(...)\<close> and \<open>(?:...)\<close>, the greedy quantifiers \<open>*\<close>, \<open>+\<close>, \<open>?\<close>, and a
  backslash before a syntax character.  No flags.  \<open>ends r s i\<close> lists the positions
  where a match of \<open>r\<close> in \<open>s\<close> that starts at position \<open>i\<close> can end; \<open>test\<close> looks
  for a match starting anywhere.
\<close>

datatype regex =
    Chr char | AnyChar | Bol | Eol | Eps
  | Seq regex regex | Alt regex regex | Star regex

text \<open>positions where a match of the expression that starts at i can end\<close>

fun star_ends :: "(nat \<Rightarrow> nat list) \<Rightarrow> nat \<Rightarrow> nat list \<Rightarrow> nat list" where
  "star_ends f 0 reached = reached"
| "star_ends f (Suc n) reached =
     (let new = filter (\<lambda>j. j \<notin> set reached) (remdups (concat (map f reached)))
      in if new = [] then reached else star_ends f n (reached @ new))"

primrec ends :: "regex \<Rightarrow> string \<Rightarrow> nat \<Rightarrow> nat list" where
  "ends (Chr c) s i = (if i < length s \<and> s ! i = c then [Suc i] else [])"
| "ends AnyChar s i =
     (if i < length s \<and> s ! i \<noteq> CHR 0x0A \<and> s ! i \<noteq> CHR 0x0D then [Suc i] else [])"
| "ends Bol s i = (if i = 0 then [i] else [])"
| "ends Eol s i = (if i = length s then [i] else [])"
| "ends Eps s i = [i]"
| "ends (Seq a b) s i = remdups (concat (map (ends b s) (ends a s i)))"
| "ends (Alt a b) s i = remdups (ends a s i @ ends b s i)"
| "ends (Star a) s i = star_ends (ends a s) (length s) [i]"

definition regex_test :: "regex \<Rightarrow> string \<Rightarrow> bool" where
  "regex_test r s = list_ex (\<lambda>i. ends r s i \<noteq> []) [0 ..< Suc (length s)]"

datatype last_term = NoAtom | Atom | Quantified
datatype mode = Normal | Escaped | GroupOpen | GroupQuestion

text \<open>parser state: enclosing groups, finished alternatives and the terms of the
  current alternative (all newest first)\<close>

datatype pstate =
    Parsing mode "(regex list \<times> regex list) list" "regex list" "regex list" last_term
  | BadSyntax
  | Unsupported

fun mk_seq :: "regex list \<Rightarrow> regex" where
  "mk_seq [] = Eps"
| "mk_seq [t] = t"
| "mk_seq (t # ts) = Seq (mk_seq ts) t"

fun mk_alt :: "regex list \<Rightarrow> regex" where
  "mk_alt [] = Eps"
| "mk_alt [a] = a"
| "mk_alt (a # as) = Alt (mk_alt as) a"

definition close_disjunction :: "regex list \<Rightarrow> regex list \<Rightarrow> regex" where
  "close_disjunction alts terms = mk_alt (mk_seq terms # alts)"

definition syntax_chars :: "char list" where
  "syntax_chars = ''^$.*+?()[]{}|/'' @ [BS]"

definition pattern_char :: "mode \<Rightarrow> (regex list \<times> regex list) list \<Rightarrow> regex list \<Rightarrow> regex list
     \<Rightarrow> last_term \<Rightarrow> char \<Rightarrow> pstate" where
  "pattern_char m frames alts terms lt c =
     (if c = BS then Parsing Escaped frames alts terms lt
      else if c = CHR ''|'' then Parsing Normal frames (mk_seq terms # alts) [] NoAtom
      else if c = CHR ''('' then Parsing GroupOpen ((alts, terms) # frames) [] [] NoAtom
      else if c = CHR '')'' then
        (case frames of
           [] \<Rightarrow> BadSyntax
         | (alts', terms') # frames' \<Rightarrow>
             Parsing Normal frames' alts' (close_disjunction alts terms # terms') Atom)
      else if c = CHR ''*'' \<or> c = CHR ''+'' \<or> c = CHR ''?'' then
        (case (lt, terms) of
           (Atom, t # ts) \<Rightarrow>
             Parsing Normal frames alts
               ((if c = CHR ''*'' then Star t
                 else if c = CHR ''+'' then Seq t (Star t)
                 else Alt t Eps) # ts) Quantified
         | (Quantified, ts) \<Rightarrow> (if c = CHR ''?'' then Unsupported else BadSyntax)
         | (lt', ts) \<Rightarrow> BadSyntax)
      else if c = CHR ''^'' then Parsing Normal frames alts (Bol # terms) NoAtom
      else if c = CHR ''$'' then Parsing Normal frames alts (Eol # terms) NoAtom
      else if c = CHR ''.'' then Parsing Normal frames alts (AnyChar # terms) Atom
      else if c \<in> set ''[]{}'' then Unsupported
      else Parsing Normal frames alts (Chr c # terms) Atom)"

fun parse_step :: "pstate \<Rightarrow> char \<Rightarrow> pstate" where
  "parse_step BadSyntax c = BadSyntax"
| "parse_step Unsupported c = Unsupported"
| "parse_step (Parsing Escaped frames alts terms lt) c =
     (if c \<in> set syntax_chars then Parsing Normal frames alts (Chr c # terms) Atom
      else Unsupported)"
| "parse_step (Parsing GroupOpen frames alts terms lt) c =
     (if c = CHR ''?'' then Parsing GroupQuestion frames alts terms lt
      else pattern_char GroupOpen frames alts terms lt c)"
| "parse_step (Parsing GroupQuestion frames alts terms lt) c =
     (if c = CHR '':'' then Parsing Normal frames alts terms lt else Unsupported)"
| "parse_step (Parsing Normal frames alts terms lt) c = pattern_char Normal frames alts terms lt c"

datatype compiled = Compiled regex | Invalid | NotModelled

fun parse_finish :: "pstate \<Rightarrow> compiled" where
  "parse_finish (Parsing Normal [] alts terms lt) = Compiled (close_disjunction alts terms)"
| "parse_finish (Parsing GroupOpen [] alts terms lt) = Compiled (close_disjunction alts terms)"
| "parse_finish (Parsing m frames alts terms lt) = Invalid"
| "parse_finish BadSyntax = Invalid"
| "parse_finish Unsupported = NotModelled"

definition compile :: "string \<Rightarrow> compiled" where
  "compile src = parse_finish (foldl parse_step (Parsing Normal [] [] [] NoAtom) src)"

text \<open>The whole string is one match of the expression.\<close>

definition whole_match :: "regex \<Rightarrow> string \<Rightarrow> bool" where
  "whole_match r s = (length s \<in> set (ends r s 0))"

text \<open>
  The whole string is one match of the pattern compiled on its own: what a pattern
  "matching the whole title" means.
\<close>

definition pattern_matches_whole :: "string \<Rightarrow> string \<Rightarrow> bool" where
  "pattern_matches_whole src s =
     (case compile src of Compiled r \<Rightarrow> whole_match r s | Invalid \<Rightarrow> False | NotModelled \<Rightarrow> False)"

text \<open>
  \<open>new RegExp(source)\<close>.  A source outside the fragment is answered with an error of
  the model's own; the scenarios never compile one.
\<close>

definition node_RegExp :: "string \<Rightarrow> error + (string \<Rightarrow> bool)" where
  "node_RegExp src =
     (case compile src of
        Compiled r \<Rightarrow> Inr (regex_test r)
      | Invalid \<Rightarrow> Inl (SyntaxError ''Invalid regular expression'')
      | NotModelled \<Rightarrow> Inl (Error ''regular expression outside the modelled fragment''))"

text \<open>\<open>new RegExp(source).test(s)\<close>\<close>

definition node_test :: "string \<Rightarrow> string \<Rightarrow> error + bool" where
  "node_test src s = (case node_RegExp src of Inl err \<Rightarrow> Inl err | Inr re_test \<Rightarrow> Inr (re_test s))"

text \<open>A pattern without syntax characters: a plain title.\<close>

definition plain :: "string \<Rightarrow> bool" where
  "plain p = (\<forall>c\<in>set p. c \<notin> set ''^$.*+?()[]{}|'' \<and> c \<noteq> BS)"

subsection \<open>The scenarios\<close>

text \<open>
  The metadata files of the two games of the test suite, as \<open>JSON.stringify\<close> writes
  them, and \<open>JSON.parse\<close> on these texts.
\<close>

definition gameinfo_12345 :: string where
  \<open>gameinfo_12345 =
     ''{"gameId":"12345","name":"Test Game 1","installDirectory":"/Games/Test Game 1"}''\<close>

definition gameinfo_67890 :: string where
  \<open>gameinfo_67890 =
     ''{"gameId":"67890","name":"Test Game 2","installDirectory":"/Games/Test Game 2"}''\<close>

definition scenario_JSON_parse :: "string \<Rightarrow> error + json" where
  "scenario_JSON_parse text =
     (if text = gameinfo_12345 then
        Inr (JValue [(''gameId'', ''12345''), (''name'', ''Test Game 1''),
                     (''installDirectory'', ''/Games/Test Game 1'')])
      else if text = gameinfo_67890 then
        Inr (JValue [(''gameId'', ''67890''), (''name'', ''Test Game 2''),
                     (''installDirectory'', ''/Games/Test Game 2'')])
      else if text = ''null'' then Inr JNull
      else Inl (SyntaxError ''Unexpected token''))"

definition node_posix :: runtime where
  "node_posix = \<lparr>path_join = posix_join, JSON_parse = scenario_JSON_parse, RegExp = node_RegExp\<rparr>"

definition node_win32 :: runtime where
  "node_win32 = \<lparr>path_join = win32_join, JSON_parse = scenario_JSON_parse, RegExp = node_RegExp\<rparr>"

definition ENOENT :: error where
  "ENOENT = SystemError ''ENOENT'' ''no such file or directory''"

text \<open>
  A macOS home with the data directory of the client and the two game folders; the
  client application itself is not installed.  \<open>installed\<close> lists the install
  directories that exist.
\<close>

definition macos_world :: "string list \<Rightarrow> world" where
  "macos_world installed =
     \<lparr>HOME = Some ''/Users/test'',
      existsSync = (\<lambda>p. Inr False),
      stat = (\<lambda>p. if p = ''/Users/test/Library/Application Support/GOG.com/Galaxy''
                       \<or> p \<in> set installed
                    then Resolved () else Rejected ENOENT),
      readdir = (\<lambda>p. if p = ''/Users/test/Library/Application Support/GOG.com/Galaxy/games''
                      then Resolved [''12345'', ''67890''] else Rejected ENOENT),
      readFile = (\<lambda>p.
        if p = ''/Users/test/Library/Application Support/GOG.com/Galaxy/games/12345/gameinfo''
        then Resolved gameinfo_12345
        else if p = ''/Users/test/Library/Application Support/GOG.com/Galaxy/games/67890/gameinfo''
        then Resolved gameinfo_67890
        else Rejected ENOENT),
      import_winapi = Rejected (Error ''Cannot find module winapi-bindings'')\<rparr>"

text \<open>A machine with no trace of the client.\<close>

definition bare_world :: world where
  "bare_world =
     \<lparr>HOME = Some ''/home/test'',
      existsSync = (\<lambda>p. Inr False),
      stat = (\<lambda>p. Rejected ENOENT),
      readdir = (\<lambda>p. Rejected ENOENT),
      readFile = (\<lambda>p. Rejected ENOENT),
      import_winapi = Rejected (Error ''Cannot find module winapi-bindings'')\<rparr>"

text \<open>
  A Windows registry with the client installed on drive C and one game, 9999, whose
  three values are set.
\<close>

definition windows_registry :: winapi where
  "windows_registry =
     \<lparr>RegGetValue = (\<lambda>hk path key.
        if hk = Hive ''HKEY_LOCAL_MACHINE'' \<and> path = REG_GOG_CLIENT_PATHS \<and> key = ''client''
        then Inr (''C:'' @ BS # ''GOG Galaxy'')
        else if hk = Opened ''HKEY_LOCAL_MACHINE'' REG_GOG_GAMES \<and> path = ''9999'' then
          (if key = ''gameID'' then Inr ''9999''
           else if key = ''path'' then Inr (''C:'' @ BS # ''Games'' @ BS # ''Foo'')
           else if key = ''startMenu'' then Inr ''Foo''
           else Inl ENOENT)
        else Inl ENOENT),
      WithRegOpen = (\<lambda>hk path.
        if hk = Hive ''HKEY_LOCAL_MACHINE'' \<and> path = REG_GOG_GAMES
        then Inr (Opened ''HKEY_LOCAL_MACHINE'' REG_GOG_GAMES) else Inl ENOENT),
      RegEnumKeys = (\<lambda>hk.
        if hk = Opened ''HKEY_LOCAL_MACHINE'' REG_GOG_GAMES then Inr [''9999''] else Inl ENOENT)\<rparr>"

definition windows_world :: world where
  "windows_world =
     \<lparr>HOME = None,
      existsSync = (\<lambda>p. Inr False),
      stat = (\<lambda>p. Rejected ENOENT),
      readdir = (\<lambda>p. Rejected ENOENT),
      readFile = (\<lambda>p. Rejected ENOENT),
      import_winapi = Resolved windows_registry\<rparr>"

definition both_installed :: world where
  "both_installed = macos_world [''/Games/Test Game 1'', ''/Games/Test Game 2'']"

definition one_installed :: world where
  "one_installed = macos_world [''/Games/Test Game 1'']"

definition entry_12345 :: IGameStoreEntry where
  "entry_12345 = \<lparr>appid = ''12345'', name = ''Test Game 1'', gamePath = ''/Games/Test Game 1'',
                   gameStoreId = ''gog''\<rparr>"

definition entry_67890 :: IGameStoreEntry where
  "entry_67890 = \<lparr>appid = ''67890'', name = ''Test Game 2'', gamePath = ''/Games/Test Game 2'',
                   gameStoreId = ''gog''\<rparr>"

definition entry_9999 :: IGameStoreEntry where
  "entry_9999 = \<lparr>appid = ''9999'', name = ''Foo'', gamePath = ''C:'' @ BS # ''Games'' @ BS # ''Foo'',
                  gameStoreId = ''gog''\<rparr>"

section \<open>Properties\<close>

subsection \<open>The enumerators\<close>

lemma windows_entry_logs: "list_all is_log (snd (windows_entry api hk key))"
  by (simp add: windows_entry_def is_log_def split: sum.splits)

lemma windows_entry_store:
  "fst (windows_entry api hk key) = Some e \<Longrightarrow> gameStoreId e = STORE_ID"
  by (auto simp: windows_entry_def split: sum.splits)

lemma windows_executor_logs: "list_all is_log (snd (windows_executor api))"
  by (auto simp: windows_executor_def Let_def list_all_iff windows_entry_logs[unfolded list_all_iff] split: sum.splits)

lemma set_map_filter: "set (List.map_filter f xs) = {y. \<exists>x \<in> set xs. f x = Some y}"
  by (induction xs) (auto simp: List.map_filter_def)

lemma windows_executor_store:
  "fst (windows_executor api) = Resolved es \<Longrightarrow> e \<in> set es \<Longrightarrow> gameStoreId e = STORE_ID"
  by (auto simp: windows_executor_def Let_def set_map_filter split: sum.splits if_splits
           dest: windows_entry_store)

lemma getGameEntriesWindows_resolves:
  "\<exists>es. fst (getGameEntriesWindows w this) = Resolved es"
  by (cases "import_winapi w"; cases "fst (windows_executor (case import_winapi w of Resolved a \<Rightarrow> a))")
     (auto simp: getGameEntriesWindows_def split: prod.splits promise.splits)

lemma getGameEntriesWindows_store:
  "fst (getGameEntriesWindows w this) = Resolved es \<Longrightarrow> e \<in> set es \<Longrightarrow> gameStoreId e = STORE_ID"
proof (cases "import_winapi w")
  case (Resolved api)
  assume a: "fst (getGameEntriesWindows w this) = Resolved es" "e \<in> set es"
  show ?thesis
  proof (cases "fst (windows_executor api)")
    case (Resolved es')
    with a \<open>import_winapi w = Resolved api\<close> have "es = es' \<or> es = []"
      by (auto simp: getGameEntriesWindows_def split: prod.splits if_splits)
    with a Resolved show ?thesis
      using windows_executor_store[of api es' e] by auto
  next
    case (Rejected err)
    with a \<open>import_winapi w = Resolved api\<close> show ?thesis
      by (auto simp: getGameEntriesWindows_def split: prod.splits if_splits)
  qed
next
  case (Rejected err)
  assume "fst (getGameEntriesWindows w this) = Resolved es" "e \<in> set es"
  with Rejected show ?thesis
    by (auto simp: getGameEntriesWindows_def split: if_splits)
qed

lemma getGameEntriesWindows_logs: "list_all is_log (snd (getGameEntriesWindows w this))"
proof (cases "import_winapi w")
  case (Resolved api)
  then show ?thesis
    using windows_executor_logs[of api]
    by (auto simp: getGameEntriesWindows_def split: prod.splits)
next
  case (Rejected err)
  then show ?thesis
    by (simp add: getGameEntriesWindows_def)
qed

lemma getGameEntriesWindows_absent:
  "mClientPath this = None \<Longrightarrow> getGameEntriesWindows w this = (Resolved [], [])"
  by (simp add: getGameEntriesWindows_def)

lemma macos_candidate_logs: "list_all is_log (snd (macos_candidate rt w gamesPath gameId))"
  by (simp add: macos_candidate_def Let_def is_log_def split: promise.splits sum.splits json.splits)

lemma macos_candidate_entry:
  assumes "e \<in> set (fst (macos_candidate rt w gamesPath gameId))"
  shows "gameStoreId e = STORE_ID \<and> gamePath e \<noteq> [] \<and> stat w (gamePath e) = Resolved ()
         \<and> (\<exists>gameInfoData gameInfo.
               readFile w (path_join rt [gamesPath, gameId, ''gameinfo'']) = Resolved gameInfoData
             \<and> JSON_parse rt gameInfoData = Inr (JValue gameInfo)
             \<and> map_of gameInfo ''installDirectory'' = Some (gamePath e)
             \<and> appid e = js_or (map_of gameInfo ''gameId'') gameId
             \<and> name e = js_or (map_of gameInfo ''name'')
                           (js_or (map_of gameInfo ''title'') (''GOG Game '' @ appid e)))"
proof -
  let ?file = "path_join rt [gamesPath, gameId, ''gameinfo'']"
  from assms obtain gameInfoData where t: "readFile w ?file = Resolved gameInfoData"
    by (cases "readFile w ?file") (auto simp: macos_candidate_def)
  with assms obtain gameInfo where g: "JSON_parse rt gameInfoData = Inr (JValue gameInfo)"
    by (cases "JSON_parse rt gameInfoData") (auto simp: macos_candidate_def split: json.splits)
  with assms t obtain p where p: "map_of gameInfo ''installDirectory'' = Some p"
    by (cases "map_of gameInfo ''installDirectory''") (auto simp: macos_candidate_def Let_def)
  from assms t g p show ?thesis
    by (auto simp: macos_candidate_def Let_def split: promise.splits if_splits)
qed

lemma macos_loop_eq:
  "macos_loop rt w gamesPath gameDirs (es, evs) =
     (es @ concat (map (\<lambda>gameId. fst (macos_candidate rt w gamesPath gameId)) gameDirs),
      evs @ concat (map (\<lambda>gameId. snd (macos_candidate rt w gamesPath gameId)) gameDirs))"
  by (induction gameDirs arbitrary: es evs) (auto split: prod.splits)

lemma macos_body_resolves: "\<exists>es. fst (macos_body rt w) = Resolved es"
  by (auto simp: macos_body_def Let_def split: promise.splits prod.splits)

lemma getGameEntriesMacOS_body: "getGameEntriesMacOS rt w = macos_body rt w"
  using macos_body_resolves[of rt w]
  by (auto simp: getGameEntriesMacOS_def split: prod.splits promise.splits)

lemma getGameEntriesMacOS_entries:
  assumes "fst (getGameEntriesMacOS rt w) = Resolved es" and "e \<in> set es"
  shows "\<exists>gameDirs gameId. 
           readdir w (path_join rt [path_join rt [js_or (HOME w) [], ''Library'',
                        ''Application Support'', ''GOG.com'', ''Galaxy''], ''games''])
             = Resolved gameDirs
         \<and> gameId \<in> set gameDirs
         \<and> e \<in> set (fst (macos_candidate rt w
                (path_join rt [path_join rt [js_or (HOME w) [], ''Library'',
                        ''Application Support'', ''GOG.com'', ''Galaxy''], ''games'']) gameId))"
  using assms
  by (auto simp: getGameEntriesMacOS_body macos_body_def Let_def macos_loop_eq
           split: promise.splits prod.splits)

lemma getGameEntriesMacOS_store:
  "fst (getGameEntriesMacOS rt w) = Resolved es \<Longrightarrow> e \<in> set es \<Longrightarrow> gameStoreId e = STORE_ID"
  using getGameEntriesMacOS_entries macos_candidate_entry by blast

lemma getGameEntriesMacOS_logs: "list_all is_log (snd (getGameEntriesMacOS rt w))"
  by (auto simp: getGameEntriesMacOS_body macos_body_def Let_def macos_loop_eq list_all_iff
                 macos_candidate_logs[unfolded list_all_iff]
           split: promise.splits prod.splits)

lemma getGameEntries_resolves: "\<exists>es. fst (getGameEntries platform rt w this) = Resolved es"
  using getGameEntriesWindows_resolves[of w this] macos_body_resolves[of rt w]
  by (auto simp: getGameEntries_def getGameEntriesMacOS_body split: prod.splits)

lemma getGameEntries_store:
  "fst (getGameEntries platform rt w this) = Resolved es \<Longrightarrow> e \<in> set es \<Longrightarrow> gameStoreId e = STORE_ID"
  using getGameEntriesWindows_store[of w this es e] getGameEntriesMacOS_store[of rt w es e]
  by (auto simp: getGameEntries_def split: prod.splits if_splits)

lemma getGameEntries_calls:
  "count_list (snd (getGameEntries platform rt w this)) (Call ''getGameEntries'') = 1"
proof -
  have nolog: "list_all is_log evs \<Longrightarrow> count_list evs (Call f) = 0" for evs f
    by (induction evs) (auto simp: is_log_def split: event.splits)
  show ?thesis
    using nolog[OF getGameEntriesWindows_logs[of w this]] nolog[OF getGameEntriesMacOS_logs[of rt w]]
    by (auto simp: getGameEntries_def split: prod.splits)
qed

lemma getGameEntries_unsupported:
  "platform \<noteq> ''win32'' \<Longrightarrow> platform \<noteq> ''darwin'' \<Longrightarrow>
     getGameEntries platform rt w this = (Resolved [], [Call ''getGameEntries''])"
  by (simp add: getGameEntries_def)

lemma getGameEntries_ok: "snapshot_ok (fst (getGameEntries platform rt w this))"
  using getGameEntries_resolves[of platform rt w this] getGameEntries_store[of platform rt w this]
  by (auto simp: snapshot_ok_def list_all_iff)

lemma getGameEntries_absent:
  "platform \<noteq> ''darwin'' \<Longrightarrow> mClientPath this = None \<Longrightarrow>
     fst (getGameEntries platform rt w this) = Resolved []"
  by (simp add: getGameEntries_def getGameEntriesWindows_absent)

subsection \<open>The cache\<close>

lemma allGames_cached:
  "mCache this = Some p \<Longrightarrow> allGames platform rt w this = (p, this, [])"
  by (simp add: allGames_def)

lemma allGames_fresh:
  "mCache this = None \<Longrightarrow>
     allGames platform rt w this =
       (fst (getGameEntries platform rt w this),
        this\<lparr>mCache := Some (fst (getGameEntries platform rt w this))\<rparr>,
        snd (getGameEntries platform rt w this))"
  by (simp add: allGames_def split: prod.splits)

lemma allGames_populates:
  "mCache (fst (snd (allGames platform rt w this))) = Some (fst (allGames platform rt w this))"
  by (cases "mCache this") (simp_all add: allGames_cached allGames_fresh)

lemma allGames_mClientPath:
  "mClientPath (fst (snd (allGames platform rt w this))) = mClientPath this"
  by (cases "mCache this") (simp_all add: allGames_cached allGames_fresh)

lemma allGames_state:
  "fst (snd (allGames platform rt w this)) =
     (case mCache this of
        None \<Rightarrow> this\<lparr>mCache := Some (fst (getGameEntries platform rt w this))\<rparr>
      | Some p \<Rightarrow> this)"
  by (cases "mCache this") (simp_all add: allGames_cached allGames_fresh)

lemma reloadGames_eq:
  "reloadGames platform rt w this =
     (Resolved (), this\<lparr>mCache := Some (fst (getGameEntries platform rt w this))\<rparr>,
      snd (getGameEntries platform rt w this))"
  by (simp add: reloadGames_def split: prod.splits)

lemma reloadGames_state:
  "fst (snd (reloadGames platform rt w this)) =
     this\<lparr>mCache := Some (fst (getGameEntries platform rt w this))\<rparr>"
  by (simp add: reloadGames_eq)

lemma constructor_cache: "mCache (fst (constructor platform rt w)) = None"
  by (simp add: constructor_def unprobed_def Let_def split: sum.splits bool.splits)

lemma constructor_unsupported:
  "platform \<noteq> ''win32'' \<Longrightarrow> platform \<noteq> ''darwin'' \<Longrightarrow>
     constructor platform rt w = (unprobed, [Log Info ''gog not found''])"
  by (simp add: constructor_def)

lemma probe_settled_cache: "mCache (fst (probe_settled w this)) = mCache this"
  by (simp add: probe_settled_def split: promise.splits sum.splits)

lemma reach_cache_ok:
  "reach platform rt pending this \<Longrightarrow> mCache this = Some p \<Longrightarrow> snapshot_ok p"
proof (induction arbitrary: p rule: reach.induct)
  case (reach_new w)
  then show ?case by (simp add: constructor_cache)
next
  case (reach_probe this w)
  then show ?case by (simp add: probe_settled_cache)
next
  case (reach_allGames pending this w)
  then show ?case
    by (cases "mCache this") (auto simp: allGames_state getGameEntries_ok)
next
  case (reach_reloadGames pending this w)
  then show ?case
    by (auto simp: reloadGames_state getGameEntries_ok)
qed

lemma allGames_ok:
  assumes "reach platform rt pending this"
  shows "snapshot_ok (fst (allGames platform rt w this))"
proof (cases "mCache this")
  case None
  then show ?thesis by (simp add: allGames_fresh getGameEntries_ok)
next
  case (Some p)
  with assms show ?thesis by (simp add: allGames_cached reach_cache_ok)
qed

lemma reach_absent:
  "reach platform rt pending this \<Longrightarrow> platform \<noteq> ''darwin'' \<Longrightarrow>
     (pending \<longrightarrow> mClientPath this = None)
   \<and> (mClientPath this = None \<longrightarrow> mCache this = None \<or> mCache this = Some (Resolved []))"
proof (induction rule: reach.induct)
  case (reach_new w)
  then show ?case
    by (auto simp: constructor_def unprobed_def)
next
  case (reach_probe this w)
  then show ?case
    by (auto simp: probe_settled_def split: promise.splits sum.splits)
next
  case (reach_allGames pending this w)
  then show ?case
    by (cases "mCache this") (auto simp: allGames_state getGameEntries_absent)
next
  case (reach_reloadGames pending this w)
  then show ?case
    by (auto simp: reloadGames_state getGameEntries_absent)
qed

lemma reach_unsupported:
  "reach platform rt pending this \<Longrightarrow> platform \<noteq> ''win32'' \<Longrightarrow> platform \<noteq> ''darwin'' \<Longrightarrow>
     \<not> pending \<and> mClientPath this = None"
proof (induction rule: reach.induct)
  case (reach_new w)
  then show ?case by (simp add: constructor_unsupported unprobed_def)
next
  case (reach_probe this w)
  then show ?case by simp
next
  case (reach_allGames pending this w)
  then show ?case by (simp add: allGames_mClientPath)
next
  case (reach_reloadGames pending this w)
  then show ?case by (simp add: reloadGames_state)
qed

lemma allGames_absent:
  assumes "reach platform rt pending this" "platform \<noteq> ''darwin''" "mClientPath this = None"
  shows "fst (allGames platform rt w this) = Resolved []"
proof (cases "mCache this")
  case None
  with assms show ?thesis by (simp add: allGames_fresh getGameEntries_absent)
next
  case (Some p)
  with reach_absent[OF assms(1,2)] assms(3) show ?thesis by (simp add: allGames_cached)
qed

text \<open>On darwin every memoized snapshot is the result of some macOS enumeration.\<close>

lemma getGameEntries_darwin:
  "fst (getGameEntries ''darwin'' rt w this) = fst (getGameEntriesMacOS rt w)"
  by (simp add: getGameEntries_def split_def Let_def)

lemma reach_darwin_origin:
  "reach platform rt pending this \<Longrightarrow> platform = ''darwin'' \<Longrightarrow> mCache this = Some p \<Longrightarrow>
     \<exists>w'. p = fst (getGameEntriesMacOS rt w')"
proof (induction arbitrary: p rule: reach.induct)
  case (reach_new w)
  then show ?case by (simp add: constructor_cache)
next
  case (reach_probe this w)
  then show ?case by (simp add: probe_settled_cache)
next
  case (reach_allGames pending this w)
  then show ?case
    by (cases "mCache this") (auto simp: allGames_state getGameEntries_darwin)
next
  case (reach_reloadGames pending this w)
  then show ?case
    by (auto simp: reloadGames_state getGameEntries_darwin)
qed

subsection \<open>The lookups\<close>

lemma find_first:
  "find P xs = Some x \<longleftrightarrow> (\<exists>i<length xs. xs ! i = x \<and> P x \<and> (\<forall>j<i. \<not> P (xs ! j)))"
  by (auto simp: find_Some_iff)

lemma find_none: "find P xs = None \<longleftrightarrow> (\<forall>x\<in>set xs. \<not> P x)"
  by (auto simp: find_None_iff)

lemma find_in_set: "find P xs = Some x \<Longrightarrow> x \<in> set xs"
  by (auto simp: find_Some_iff)

lemma findByAppId_eq:
  "fst (allGames platform rt w this) = Resolved entries \<Longrightarrow>
   fst (findByAppId platform rt w appId this) =
     (case find (case appId of Many ids \<Rightarrow> (\<lambda>entry. appid entry \<in> set ids)
                             | One a \<Rightarrow> (\<lambda>entry. a = appid entry)) entries of
        None \<Rightarrow> Rejected (GameEntryNotFound
                            (case appId of Many ids \<Rightarrow> join_comma ids | One a \<Rightarrow> a) STORE_ID)
      | Some gameEntry \<Rightarrow> Resolved gameEntry)"
  by (auto simp: findByAppId_def Let_def split: prod.splits)

lemma getExecInfo_eq:
  "fst (getExecInfo platform rt w appId this) =
     then_p (fst (allGames platform rt w this)) (\<lambda>entries.
       case find (\<lambda>entry. appid entry = appId) entries of
         None \<Rightarrow> Rejected (GameEntryNotFound appId STORE_ID)
       | Some gameEntry \<Rightarrow>
           (case mClientPath this of
              None \<Rightarrow> Rejected (Error ''GOG Galaxy not installed'')
            | Some clientPath \<Rightarrow>
                then_p clientPath (\<lambda>basePath.
                  if platform = ''darwin'' then
                    Resolved \<lparr>execPath = basePath,
                      arguments = [''/gameId='' @ appid gameEntry, ''/command=runGame'',
                                   ''path='' @ DQ # gamePath gameEntry @ [DQ]]\<rparr>
                  else
                    Resolved \<lparr>execPath = path_join rt [basePath, GOG_EXEC],
                      arguments = [''/command=runGame'', ''/gameId='' @ appid gameEntry,
                                   ''path='' @ DQ # gamePath gameEntry @ [DQ]]\<rparr>)))"
proof -
  obtain p this' evs where ag: "allGames platform rt w this = (p, this', evs)"
    by (cases "allGames platform rt w this") auto
  then have "mClientPath this' = mClientPath this"
    using allGames_mClientPath[of platform rt w this] by simp
  then show ?thesis
    by (simp add: getExecInfo_def ag cong: option.case_cong)
qed

lemma findByName_eq:
  "RegExp rt (''^'' @ namePattern @ ''$'') = Inr re_test \<Longrightarrow>
   findByName platform rt w namePattern this =
     Inr (then_p (fst (allGames platform rt w this)) (\<lambda>entries.
            case find (\<lambda>entry. re_test (name entry)) entries of
              None \<Rightarrow> Rejected (GameEntryNotFound namePattern STORE_ID)
            | Some entry \<Rightarrow> Resolved entry),
          fst (snd (allGames platform rt w this)), snd (snd (allGames platform rt w this)))"
  by (auto simp: findByName_def split: prod.splits)

lemma findByName_throws:
  "RegExp rt (''^'' @ namePattern @ ''$'') = Inl err \<Longrightarrow>
   findByName platform rt w namePattern this = Inl err"
  by (simp add: findByName_def)

text \<open>The lookups write the object only through \<open>allGames\<close>.\<close>

lemma lookups_state:
  "fst (snd (getExecInfo platform rt w appId this)) = fst (snd (allGames platform rt w this))"
  "fst (snd (findByAppId platform rt w ids this)) = fst (snd (allGames platform rt w this))"
  "findByName platform rt w namePattern this = Inr r \<Longrightarrow>
     fst (snd r) = fst (snd (allGames platform rt w this))"
  by (auto simp: getExecInfo_def findByAppId_def findByName_def Let_def
           split: prod.splits sum.splits)

lemma getGameStorePath_absent:
  "mClientPath this = None \<Longrightarrow> getGameStorePath platform rt this = Resolved None"
  by (simp add: getGameStorePath_def)

lemma fileExists_eq: "fileExists w p = Resolved (stat w p = Resolved ())"
  by (cases "stat w p") (auto simp: fileExists_def)

subsection \<open>The scenarios, evaluated\<close>

text \<open>The examples of the Node.js documentation of \<open>path.join\<close> and \<open>path.normalize\<close>.\<close>

lemma path_documented_examples:
  "posix_join [''/foo'', ''bar'', ''baz/asdf'', ''quux'', ''..''] = ''/foo/bar/baz/asdf''"
  "posix_normalize ''/foo/bar//baz/asdf/quux/..'' = ''/foo/bar/baz/asdf''"
  "win32_normalize (''C:'' @ BS # ''temp'' @ BS # BS # ''foo'' @ BS # ''bar'' @ BS # ''..'' @ [BS])
     = ''C:'' @ BS # ''temp'' @ BS # ''foo'' @ [BS]"
  "win32_normalize (''C:////temp'' @ BS # BS # ''/'' @ BS # ''/'' @ BS # ''/foo/bar'')
     = ''C:'' @ BS # ''temp'' @ BS # ''foo'' @ BS # ''bar''"
  by code_simp+

lemma darwin_new:
  "fst (constructor ''darwin'' node_posix both_installed) = unprobed"
  by code_simp

lemma darwin_reach: "reach ''darwin'' node_posix False unprobed"
  using reach_new[of "''darwin''" node_posix both_installed] by (simp add: darwin_new)

lemma both_enumerated:
  "getGameEntries ''darwin'' node_posix both_installed unprobed
     = (Resolved [entry_12345, entry_67890], [Call ''getGameEntries''])"
  by code_simp

lemma one_enumerated:
  "fst (getGameEntries ''darwin'' node_posix one_installed this) = Resolved [entry_12345]"
proof -
  have "fst (getGameEntriesMacOS node_posix one_installed) = Resolved [entry_12345]"
    by code_simp
  then show ?thesis
    by (simp add: getGameEntries_def split_def)
qed

lemma both_first_call:
  "allGames ''darwin'' node_posix both_installed unprobed
     = (Resolved [entry_12345, entry_67890],
        unprobed\<lparr>mCache := Some (Resolved [entry_12345, entry_67890])\<rparr>,
        [Call ''getGameEntries''])"
proof -
  have "mCache unprobed = None"
    by (simp add: unprobed_def)
  then show ?thesis
    by (simp add: allGames_fresh both_enumerated)
qed

lemma win32_reach: "reach ''win32'' node_win32 True unprobed"
  using reach_new[of "''win32''" node_win32 windows_world] by (simp add: constructor_def)

lemma darwin_cached_reach:
  "reach ''darwin'' node_posix False (fst (snd (allGames ''darwin'' node_posix both_installed unprobed)))"
  by (rule reach_allGames[OF darwin_reach])

lemma linux_reach: "reach ''linux'' node_posix False unprobed"
  using reach_new[of "''linux''" node_posix bare_world] by (simp add: constructor_def)

lemma findByName_first:
  assumes "RegExp rt (''^'' @ namePattern @ ''$'') = Inr re_test"
      and "fst (allGames platform rt w this) = Resolved entries"
  shows "map_sum id fst (findByName platform rt w namePattern this) =
           Inr (case find (\<lambda>entry. re_test (name entry)) entries of
                  None \<Rightarrow> Rejected (GameEntryNotFound namePattern STORE_ID)
                | Some entry \<Rightarrow> Resolved entry)"
  by (simp add: findByName_eq[OF assms(1)] assms(2))

text \<open>
  For a plain title the anchored expression matches exactly that title, so
  \<open>findByName\<close> finds the first entry of that name.
\<close>

lemma parse_plain_char:
  "c \<notin> set ''^$.*+?()[]{}|'' \<Longrightarrow> c \<noteq> BS \<Longrightarrow>
     pattern_char Normal frames alts terms lt c
       = Parsing Normal frames alts (Chr c # terms) Atom"
  by (simp add: pattern_char_def)

lemma parse_plain:
  "plain p \<Longrightarrow> p \<noteq> [] \<Longrightarrow>
     foldl parse_step (Parsing Normal frames alts terms lt) p
       = Parsing Normal frames alts (rev (map Chr p) @ terms) Atom"
proof (induction p arbitrary: terms lt)
  case Nil
  then show ?case by simp
next
  case (Cons c p)
  then have c: "c \<notin> set ''^$.*+?()[]{}|''" "c \<noteq> BS" and p: "plain p"
    by (simp_all add: plain_def)
  show ?case
  proof (cases "p = []")
    case True
    then show ?thesis by (simp add: parse_plain_char[OF c])
  next
    case False
    then show ?thesis
      using Cons.IH[OF p False] by (simp add: parse_plain_char[OF c])
  qed
qed

lemma mk_seq_Cons: "ts \<noteq> [] \<Longrightarrow> mk_seq (t # ts) = Seq (mk_seq ts) t"
  by (cases ts) simp_all

lemma compile_plain:
  assumes "plain p"
  shows "compile (CHR ''^'' # p @ ''$'') = Compiled (Seq (mk_seq (rev (map Chr p) @ [Bol])) Eol)"
proof -
  have first: "pattern_char Normal [] [] [] NoAtom CHR ''^''
                 = Parsing Normal [] [] [Bol] NoAtom"
    by (simp add: pattern_char_def)
  have mid: "foldl parse_step (Parsing Normal [] [] [Bol] NoAtom) p
               = Parsing Normal [] [] (rev (map Chr p) @ [Bol]) (if p = [] then NoAtom else Atom)"
    using parse_plain[OF assms, of "[]" "[]" "[Bol]" NoAtom] by (cases "p = []") simp_all
  have last: "pattern_char Normal [] [] ts lt CHR ''$''
                = Parsing Normal [] [] (Eol # ts) NoAtom" for ts lt
    by (simp add: pattern_char_def)
  show ?thesis
    by (simp add: compile_def first mid last close_disjunction_def mk_seq_Cons)
qed

lemma ends_plain:
  "ends (mk_seq (rev (map Chr p) @ [Bol])) s i
     = (if i = 0 \<and> take (length p) s = p then [length p] else [])"
proof (induction p rule: rev_induct)
  case Nil
  then show ?case by simp
next
  case (snoc c p)
  have t: "take (Suc (length p)) s = p @ [c]
             \<longleftrightarrow> take (length p) s = p \<and> length p < length s \<and> s ! length p = c"
  proof (cases "length p < length s")
    case True
    then show ?thesis by (auto simp: take_Suc_conv_app_nth)
  next
    case False
    then have "length (take (Suc (length p)) s) \<noteq> length (p @ [c])"
      by simp
    then have "take (Suc (length p)) s \<noteq> p @ [c]"
      by (auto simp del: length_take length_append)
    with False show ?thesis by simp
  qed
  have "ends (mk_seq (rev (map Chr (p @ [c])) @ [Bol])) s i
          = remdups (concat (map (ends (Chr c) s) (ends (mk_seq (rev (map Chr p) @ [Bol])) s i)))"
    by (simp add: mk_seq_Cons)
  also have "\<dots> = (if i = 0 \<and> take (length p) s = p then ends (Chr c) s (length p) else [])"
    unfolding snoc.IH by simp
  also have "\<dots> = (if i = 0 \<and> take (Suc (length p)) s = p @ [c] then [Suc (length p)] else [])"
    unfolding t by simp
  finally show ?case by simp
qed

lemma test_plain:
  "regex_test (Seq (mk_seq (rev (map Chr p) @ [Bol])) Eol) s \<longleftrightarrow> s = p"
proof -
  have "ends (Seq (mk_seq (rev (map Chr p) @ [Bol])) Eol) s i \<noteq> [] \<longleftrightarrow> i = 0 \<and> s = p" for i
    by (auto simp: ends_plain)
  then show ?thesis
    by (auto simp: regex_test_def list_ex_iff)
qed

lemma node_test_plain:
  "plain p \<Longrightarrow> node_test (''^'' @ p @ ''$'') s = Inr (s = p)"
  by (simp add: node_test_def node_RegExp_def compile_plain test_plain)

lemma findByName_plain:
  assumes "plain namePattern" and "RegExp rt = node_RegExp"
      and "fst (allGames platform rt w this) = Resolved entries"
  shows "map_sum id fst (findByName platform rt w namePattern this) =
           Inr (case find (\<lambda>entry. name entry = namePattern) entries of
                  None \<Rightarrow> Rejected (GameEntryNotFound namePattern STORE_ID)
                | Some entry \<Rightarrow> Resolved entry)"
proof -
  have "RegExp rt (''^'' @ namePattern @ ''$'')
          = Inr (regex_test (Seq (mk_seq (rev (map Chr namePattern) @ [Bol])) Eol))"
    using assms(1,2) by (simp add: node_RegExp_def compile_plain)
  from findByName_first[OF this assms(3)] show ?thesis
    by (simp add: test_plain)
qed

lemma findByName_anchored_literal:
  "node_test (''^'' @ ''Test Game 1'' @ ''$'') ''Test Game 1'' = Inr True
 \<and> node_test (''^'' @ ''Test Game 1'' @ ''$'') ''Test Game 10'' = Inr False
 \<and> node_test (''^'' @ ''Test Game 1'' @ ''$'') ''A Test Game 1'' = Inr False"
  by code_simp

lemma findByName_invalid_pattern:
  "findByName ''darwin'' node_posix both_installed ''('' unprobed
     = Inl (SyntaxError ''Invalid regular expression'')"
  by code_simp

lemma macos_paths:
  "gogDataPath_of rt w =
     path_join rt [js_or (HOME w) [], ''Library'', ''Application Support'', ''GOG.com'', ''Galaxy'']"
  "gamesPath_of rt w =
     path_join rt [path_join rt [js_or (HOME w) [], ''Library'', ''Application Support'',
                                 ''GOG.com'', ''Galaxy''], ''games'']"
  by (simp_all add: gogDataPath_of_def gamesPath_of_def)

lemma getGameEntriesMacOS_absent:
  "stat w (gogDataPath_of rt w) = Rejected err \<Longrightarrow> getGameEntriesMacOS rt w = (Resolved [], [])"
  by (simp add: getGameEntriesMacOS_body macos_body_def macos_paths)

lemma getGameEntriesMacOS_concat:
  "stat w (gogDataPath_of rt w) = Resolved () \<Longrightarrow>
   readdir w (gamesPath_of rt w) = Resolved gameDirs \<Longrightarrow>
   fst (getGameEntriesMacOS rt w) =
     Resolved (concat (map (\<lambda>gameId. fst (macos_candidate rt w (gamesPath_of rt w) gameId)) gameDirs))"
  by (simp add: getGameEntriesMacOS_body macos_body_def macos_paths macos_loop_eq Let_def)

lemma macos_candidate_skips:
  assumes "readFile w (path_join rt [gamesPath, gameId, ''gameinfo'']) = Resolved gameInfoData"
      and "JSON_parse rt gameInfoData = Inr (JValue gameInfo)"
      and "\<forall>p. map_of gameInfo ''installDirectory'' = Some p \<longrightarrow>
             p = [] \<or> (\<exists>err. stat w p = Rejected err)"
  shows "fst (macos_candidate rt w gamesPath gameId) = []"
proof (cases "map_of gameInfo ''installDirectory''")
  case None
  with assms show ?thesis
    by (simp add: macos_candidate_def Let_def)
next
  case (Some p)
  with assms show ?thesis
    by (auto simp: macos_candidate_def Let_def)
qed

section \<open>The claims\<close>

text \<open>
  C1 (as amended).  For an object a program can hold whose \<open>mClientPath\<close> is undefined:
  \<open>allGames\<close> never rejects; on every platform but darwin it resolves with the empty
  list; on darwin it resolves with the result of the enumeration of the data directory,
  which does not look at the client path: the enumeration of this call when nothing
  is memoized, and otherwise the memoized snapshot, which is the result of an earlier
  such enumeration; \<open>getGameStorePath\<close> resolves with undefined.
\<close>

theorem absent_client:
  assumes "reach platform rt pending this" and "mClientPath this = None"
  shows "(\<exists>es. fst (allGames platform rt w this) = Resolved es)
       \<and> (platform \<noteq> ''darwin'' \<longrightarrow> fst (allGames platform rt w this) = Resolved [])
       \<and> (platform = ''darwin'' \<longrightarrow> mCache this = None \<longrightarrow>
            fst (allGames platform rt w this) = fst (getGameEntriesMacOS rt w))
       \<and> (\<forall>p. platform = ''darwin'' \<longrightarrow> mCache this = Some p \<longrightarrow>
            fst (allGames platform rt w this) = p
          \<and> (\<exists>w'. p = fst (getGameEntriesMacOS rt w')))
       \<and> getGameStorePath platform rt this = Resolved None"
proof -
  have a: "\<exists>es. fst (allGames platform rt w this) = Resolved es"
    using allGames_ok[OF assms(1), of w]
    by (cases "fst (allGames platform rt w this)") (auto simp: snapshot_ok_def)
  have b: "platform \<noteq> ''darwin'' \<longrightarrow> fst (allGames platform rt w this) = Resolved []"
    using allGames_absent[OF assms(1) _ assms(2)] by blast
  have c: "platform = ''darwin'' \<longrightarrow> mCache this = None \<longrightarrow>
            fst (allGames platform rt w this) = fst (getGameEntriesMacOS rt w)"
    by (auto simp: allGames_fresh getGameEntries_def split: prod.splits)
  have d: "\<forall>p. platform = ''darwin'' \<longrightarrow> mCache this = Some p \<longrightarrow>
            fst (allGames platform rt w this) = p
          \<and> (\<exists>w'. p = fst (getGameEntriesMacOS rt w'))"
    using reach_darwin_origin[OF assms(1)] by (auto simp: allGames_cached)
  from a b c d getGameStorePath_absent[OF assms(2)] show ?thesis by blast
qed

theorem absent_client_witness:
  "reach ''win32'' node_win32 True unprobed \<and> mClientPath unprobed = None
 \<and> fst (allGames ''win32'' node_win32 windows_world unprobed) = Resolved []
 \<and> getGameStorePath ''win32'' node_win32 unprobed = Resolved None
 \<and> reach ''darwin'' node_posix False unprobed
 \<and> fst (allGames ''darwin'' node_posix one_installed unprobed)
     = fst (getGameEntriesMacOS node_posix one_installed)
 \<and> reach ''darwin'' node_posix False
       (fst (snd (allGames ''darwin'' node_posix both_installed unprobed)))
 \<and> mCache (fst (snd (allGames ''darwin'' node_posix both_installed unprobed)))
     = Some (Resolved [entry_12345, entry_67890])
 \<and> fst (allGames ''darwin'' node_posix one_installed
          (fst (snd (allGames ''darwin'' node_posix both_installed unprobed))))
     = Resolved [entry_12345, entry_67890]"
proof -
  let ?st = "fst (snd (allGames ''darwin'' node_posix both_installed unprobed))"
  have n: "mClientPath unprobed = None" "mCache unprobed = None"
    by (simp_all add: unprobed_def)
  from absent_client[OF win32_reach n(1), of windows_world]
  have a: "fst (allGames ''win32'' node_win32 windows_world unprobed) = Resolved []
         \<and> getGameStorePath ''win32'' node_win32 unprobed = Resolved None"
    by simp
  from absent_client[OF darwin_reach n(1), of one_installed] n(2)
  have b: "fst (allGames ''darwin'' node_posix one_installed unprobed)
     = fst (getGameEntriesMacOS node_posix one_installed)"
    by simp
  have m: "mClientPath ?st = None" "mCache ?st = Some (Resolved [entry_12345, entry_67890])"
    using n by (simp_all add: both_first_call)
  from absent_client[OF darwin_cached_reach m(1), of one_installed] m(2)
  have c: "fst (allGames ''darwin'' node_posix one_installed ?st)
     = Resolved [entry_12345, entry_67890]"
    by simp
  from a b c m n win32_reach darwin_reach darwin_cached_reach show ?thesis by simp
qed

text \<open>
  The claim C1 as stated fails on darwin: the client application is not installed, the
  data directory holds one game, and \<open>allGames\<close> resolves with that game.
\<close>

theorem absent_client_counterexample:
  "mClientPath (fst (constructor ''darwin'' node_posix one_installed)) = None
 \<and> fst (allGames ''darwin'' node_posix one_installed
          (fst (constructor ''darwin'' node_posix one_installed)))
     = Resolved [entry_12345]
 \<and> fst (allGames ''darwin'' node_posix one_installed
          (fst (constructor ''darwin'' node_posix one_installed)))
     \<noteq> Resolved []"
  by code_simp

text \<open>
  C2 (as amended).  On every platform other than win32 and darwin, for an object a
  program can hold, \<open>allGames\<close> resolves with the empty list and \<open>getExecInfo\<close> rejects,
  for every id, with the entry-not-found error carrying the id and the store id: the
  lookup in the empty snapshot fails before the client path is looked at.
\<close>

theorem unsupported_platform:
  assumes "platform \<noteq> ''win32''" and "platform \<noteq> ''darwin''"
      and "reach platform rt pending this"
  shows "fst (allGames platform rt w this) = Resolved []
       \<and> fst (getExecInfo platform rt w appId this) = Rejected (GameEntryNotFound appId STORE_ID)
       \<and> kind_of (GameEntryNotFound appId STORE_ID) = EntryNotFound"
proof -
  from reach_unsupported[OF assms(3,1,2)] have "mClientPath this = None" by simp
  from allGames_absent[OF assms(3,2) this] have "fst (allGames platform rt w this) = Resolved []" .
  then show ?thesis by (simp add: getExecInfo_eq)
qed

theorem unsupported_platform_witness:
  "reach ''linux'' node_posix False unprobed
 \<and> fst (allGames ''linux'' node_posix bare_world unprobed) = Resolved []
 \<and> fst (getExecInfo ''linux'' node_posix bare_world ''9999'' unprobed)
     = Rejected (GameEntryNotFound ''9999'' ''gog'')"
  using unsupported_platform[OF _ _ linux_reach, of bare_world "''9999''"] linux_reach
  by (simp add: STORE_ID_def)

text \<open>
  The claim C2 as stated fails: on linux the error of \<open>getExecInfo\<close> is of the kind
  EntryNotFound, not NotInstalled.
\<close>

theorem unsupported_platform_counterexample:
  "fst (getExecInfo ''linux'' node_posix bare_world ''9999''
          (fst (constructor ''linux'' node_posix bare_world)))
     = Rejected (GameEntryNotFound ''9999'' ''gog'')
 \<and> kind_of (GameEntryNotFound ''9999'' ''gog'') \<noteq> NotInstalled"
  by code_simp

text \<open>
  C3.  Two calls of \<open>allGames\<close> with no \<open>reloadGames\<close> between them, whatever the
  operating system looks like at either call: the second returns the promise of the
  first, which is the one held in \<open>mCache\<close>, leaves the object as it is and does not
  enumerate.  From an object without snapshot the two calls invoke
  \<open>getGameEntries\<close> exactly once, and the first call fills the cache with whatever was
  enumerated, the empty list included.
\<close>

theorem allGames_memoized:
  "(let (p1, this1, evs1) = allGames platform rt w1 this;
        (p2, this2, evs2) = allGames platform rt w2 this1
    in p2 = p1 \<and> this2 = this1 \<and> evs2 = [] \<and> mCache this1 = Some p1
       \<and> (mCache this = None \<longrightarrow>
            p1 = fst (getGameEntries platform rt w1 this)
          \<and> count_list (evs1 @ evs2) (Call ''getGameEntries'') = 1)
       \<and> (mCache this \<noteq> None \<longrightarrow> this1 = this \<and> evs1 = []))"
proof (cases "mCache this")
  case None
  then show ?thesis
    by (simp add: allGames_fresh allGames_cached getGameEntries_calls)
next
  case (Some p)
  then show ?thesis
    by (simp add: allGames_cached)
qed

theorem allGames_memoized_witness:
  "mCache unprobed = None
 \<and> fst (allGames ''darwin'' node_posix both_installed unprobed)
     = Resolved [entry_12345, entry_67890]
 \<and> allGames ''darwin'' node_posix bare_world
      (fst (snd (allGames ''darwin'' node_posix both_installed unprobed)))
     = (Resolved [entry_12345, entry_67890],
        fst (snd (allGames ''darwin'' node_posix both_installed unprobed)), [])
 \<and> mCache (fst (snd (allGames ''linux'' node_posix bare_world unprobed))) = Some (Resolved [])"
proof -
  have a: "mCache unprobed = None"
    by (simp add: unprobed_def)
  from allGames_memoized[of "''darwin''" node_posix both_installed unprobed bare_world]
  have b: "allGames ''darwin'' node_posix bare_world
      (fst (snd (allGames ''darwin'' node_posix both_installed unprobed)))
     = (Resolved [entry_12345, entry_67890],
        fst (snd (allGames ''darwin'' node_posix both_installed unprobed)), [])"
    by (simp add: both_first_call split: prod.splits)
  from allGames_memoized[of "''linux''" node_posix bare_world unprobed bare_world] a
  have c: "mCache (fst (snd (allGames ''linux'' node_posix bare_world unprobed))) = Some (Resolved [])"
    by (simp add: getGameEntries_unsupported split: prod.splits)
  from a b c show ?thesis
    by (simp add: both_first_call)
qed

text \<open>
  C4.  Windows-like (any platform but darwin, with the win32 \<open>path.join\<close>): with the
  client path \<open>C:\<close>, backslash, \<open>GOG Galaxy\<close> and a snapshot whose first entry of id 9999
  has the game path \<open>C:\<close>, backslash, \<open>Games\<close>, backslash, \<open>Foo\<close>, \<open>getExecInfo\<close> of 9999
  resolves with the client executable joined to the base path and the three arguments
  run-game command, game id, quoted path, in this order.
\<close>

theorem getExecInfo_windows:
  assumes "platform \<noteq> ''darwin''" and "path_join rt = win32_join"
      and "mClientPath this = Some (Resolved (''C:'' @ BS # ''GOG Galaxy''))"
      and "mCache this = Some (Resolved entries)"
      and "find (\<lambda>entry. appid entry = ''9999'') entries = Some gameEntry"
      and "gamePath gameEntry = ''C:'' @ BS # ''Games'' @ BS # ''Foo''"
  shows "fst (getExecInfo platform rt w ''9999'' this) =
           Resolved \<lparr>execPath = ''C:'' @ BS # ''GOG Galaxy'' @ BS # ''GalaxyClient.exe'',
                     arguments = [''/command=runGame'', ''/gameId=9999'',
                                  ''path='' @ DQ # ''C:'' @ BS # ''Games'' @ BS # ''Foo'' @ [DQ]]\<rparr>"
proof -
  have j: "win32_join [''C:'' @ BS # ''GOG Galaxy'', GOG_EXEC]
             = ''C:'' @ BS # ''GOG Galaxy'' @ BS # ''GalaxyClient.exe''"
    by code_simp
  from assms(5) have "appid gameEntry = ''9999''"
    by (auto simp: find_Some_iff)
  with assms j show ?thesis
    by (simp add: getExecInfo_eq allGames_cached)
qed

theorem getExecInfo_windows_witness:
  "fst (snd (allGames ''win32'' node_win32 windows_world
              (fst (probe_settled windows_world (fst (constructor ''win32'' node_win32 windows_world))))))
     = \<lparr>mClientPath = Some (Resolved (''C:'' @ BS # ''GOG Galaxy'')),
        mCache = Some (Resolved [entry_9999])\<rparr>
 \<and> fst (getExecInfo ''win32'' node_win32 windows_world ''9999''
          \<lparr>mClientPath = Some (Resolved (''C:'' @ BS # ''GOG Galaxy'')),
           mCache = Some (Resolved [entry_9999])\<rparr>)
     = Resolved \<lparr>execPath = ''C:'' @ BS # ''GOG Galaxy'' @ BS # ''GalaxyClient.exe'',
                 arguments = [''/command=runGame'', ''/gameId=9999'',
                              ''path='' @ DQ # ''C:'' @ BS # ''Games'' @ BS # ''Foo'' @ [DQ]]\<rparr>"
proof -
  have st: "fst (snd (allGames ''win32'' node_win32 windows_world
              (fst (probe_settled windows_world (fst (constructor ''win32'' node_win32 windows_world))))))
     = \<lparr>mClientPath = Some (Resolved (''C:'' @ BS # ''GOG Galaxy'')),
        mCache = Some (Resolved [entry_9999])\<rparr>"
    by code_simp
  have "fst (getExecInfo ''win32'' node_win32 windows_world ''9999''
          \<lparr>mClientPath = Some (Resolved (''C:'' @ BS # ''GOG Galaxy'')),
           mCache = Some (Resolved [entry_9999])\<rparr>)
     = Resolved \<lparr>execPath = ''C:'' @ BS # ''GOG Galaxy'' @ BS # ''GalaxyClient.exe'',
                 arguments = [''/command=runGame'', ''/gameId=9999'',
                              ''path='' @ DQ # ''C:'' @ BS # ''Games'' @ BS # ''Foo'' @ [DQ]]\<rparr>"
    by (rule getExecInfo_windows[where entries = "[entry_9999]" and gameEntry = entry_9999])
       (simp_all add: node_win32_def entry_9999_def)
  with st show ?thesis by simp
qed

text \<open>
  C5.  The code at a pattern with an alternation: the expression built from
  \<open>Test|Game\<close> is \<open>^Test|Game$\<close>, whose first alternative is anchored at the start only
  and whose second at the end only.  On the snapshot of the two test games
  \<open>findByName\<close> resolves with the entry named \<open>Test Game 1\<close>, although that title as a
  whole is no match of the pattern (nor is the other title): the title merely
  starts with a match of one alternative.
\<close>

theorem findByName_alternation:
  "map_sum id fst (findByName ''darwin'' node_posix both_installed ''Test|Game'' unprobed)
     = Inr (Resolved entry_12345)
 \<and> name entry_12345 = ''Test Game 1''
 \<and> \<not> pattern_matches_whole ''Test|Game'' ''Test Game 1''
 \<and> \<not> pattern_matches_whole ''Test|Game'' ''Test Game 2''"
  by code_simp

text \<open>
  C6.  \<open>findByAppId\<close> on a resolved snapshot.  With one id it resolves with the entry
  at the least index whose \<open>appid\<close> equals the id; with a list of ids, with the entry at
  the least index whose \<open>appid\<close> is a member of the list.  It rejects exactly when no
  entry matches, with \<open>GameEntryNotFound\<close> carrying the id, or the ids joined by a comma
  and a space, and the store id.
\<close>

theorem findByAppId_first:
  assumes "fst (allGames platform rt w this) = Resolved entries"
  shows "(\<forall>e. fst (findByAppId platform rt w (One a) this) = Resolved e \<longleftrightarrow>
            (\<exists>i<length entries. entries ! i = e \<and> appid e = a
               \<and> (\<forall>j<i. appid (entries ! j) \<noteq> a)))
       \<and> (\<forall>e. fst (findByAppId platform rt w (Many ids) this) = Resolved e \<longleftrightarrow>
            (\<exists>i<length entries. entries ! i = e \<and> appid e \<in> set ids
               \<and> (\<forall>j<i. appid (entries ! j) \<notin> set ids)))
       \<and> (\<forall>err. fst (findByAppId platform rt w (One a) this) = Rejected err \<longleftrightarrow>
            err = GameEntryNotFound a STORE_ID \<and> (\<forall>e\<in>set entries. appid e \<noteq> a))
       \<and> (\<forall>err. fst (findByAppId platform rt w (Many ids) this) = Rejected err \<longleftrightarrow>
            err = GameEntryNotFound (join_comma ids) STORE_ID
          \<and> (\<forall>e\<in>set entries. appid e \<notin> set ids))"
proof -
  have flip: "(\<lambda>entry. a = appid entry) = (\<lambda>entry. appid entry = a)"
    by auto
  have one: "fst (findByAppId platform rt w (One a) this) =
      (case find (\<lambda>entry. appid entry = a) entries of
         None \<Rightarrow> Rejected (GameEntryNotFound a STORE_ID) | Some g \<Rightarrow> Resolved g)"
    by (simp add: findByAppId_eq[OF assms] flip split: option.splits)
  have many: "fst (findByAppId platform rt w (Many ids) this) =
      (case find (\<lambda>entry. appid entry \<in> set ids) entries of
         None \<Rightarrow> Rejected (GameEntryNotFound (join_comma ids) STORE_ID) | Some g \<Rightarrow> Resolved g)"
    by (simp add: findByAppId_eq[OF assms] split: option.splits)
  have "fst (findByAppId platform rt w (One a) this) = Resolved e \<longleftrightarrow>
          find (\<lambda>entry. appid entry = a) entries = Some e" for e
    unfolding one by (simp split: option.splits)
  then have c1: "\<forall>e. fst (findByAppId platform rt w (One a) this) = Resolved e \<longleftrightarrow>
            (\<exists>i<length entries. entries ! i = e \<and> appid e = a
               \<and> (\<forall>j<i. appid (entries ! j) \<noteq> a))"
    by (simp add: find_first)
  have "fst (findByAppId platform rt w (Many ids) this) = Resolved e \<longleftrightarrow>
          find (\<lambda>entry. appid entry \<in> set ids) entries = Some e" for e
    unfolding many by (simp split: option.splits)
  then have c2: "\<forall>e. fst (findByAppId platform rt w (Many ids) this) = Resolved e \<longleftrightarrow>
            (\<exists>i<length entries. entries ! i = e \<and> appid e \<in> set ids
               \<and> (\<forall>j<i. appid (entries ! j) \<notin> set ids))"
    by (simp add: find_first)
  have "fst (findByAppId platform rt w (One a) this) = Rejected err \<longleftrightarrow>
          err = GameEntryNotFound a STORE_ID \<and> find (\<lambda>entry. appid entry = a) entries = None" for err
    unfolding one by (auto split: option.splits)
  then have c3: "\<forall>err. fst (findByAppId platform rt w (One a) this) = Rejected err \<longleftrightarrow>
            err = GameEntryNotFound a STORE_ID \<and> (\<forall>e\<in>set entries. appid e \<noteq> a)"
    by (simp add: find_none)
  have "fst (findByAppId platform rt w (Many ids) this) = Rejected err \<longleftrightarrow>
          err = GameEntryNotFound (join_comma ids) STORE_ID
        \<and> find (\<lambda>entry. appid entry \<in> set ids) entries = None" for err
    unfolding many by (auto split: option.splits)
  then have c4: "\<forall>err. fst (findByAppId platform rt w (Many ids) this) = Rejected err \<longleftrightarrow>
            err = GameEntryNotFound (join_comma ids) STORE_ID
          \<and> (\<forall>e\<in>set entries. appid e \<notin> set ids)"
    by (simp add: find_none)
  from c1 c2 c3 c4 show ?thesis by blast
qed

theorem findByAppId_first_witness:
  "fst (allGames ''darwin'' node_posix both_installed unprobed)
     = Resolved [entry_12345, entry_67890]
 \<and> fst (findByAppId ''darwin'' node_posix both_installed (One ''67890'') unprobed)
     = Resolved entry_67890
 \<and> fst (findByAppId ''darwin'' node_posix both_installed (Many [''67890'', ''12345'']) unprobed)
     = Resolved entry_12345
 \<and> fst (findByAppId ''darwin'' node_posix both_installed (One ''1234'') unprobed)
     = Rejected (GameEntryNotFound ''1234'' ''gog'')
 \<and> fst (findByAppId ''darwin'' node_posix both_installed (Many [''1'', ''2'']) unprobed)
     = Rejected (GameEntryNotFound ''1, 2'' ''gog'')"
proof -
  have ag: "fst (allGames ''darwin'' node_posix both_installed unprobed)
     = Resolved [entry_12345, entry_67890]"
    by (simp add: both_first_call)
  note t = findByAppId_first[OF ag]
  have "\<exists>i<length [entry_12345, entry_67890]. [entry_12345, entry_67890] ! i = entry_67890
          \<and> appid entry_67890 = ''67890''
          \<and> (\<forall>j<i. appid ([entry_12345, entry_67890] ! j) \<noteq> ''67890'')"
    by (rule exI[of _ 1]) (simp add: entry_12345_def entry_67890_def)
  then have a: "fst (findByAppId ''darwin'' node_posix both_installed (One ''67890'') unprobed)
     = Resolved entry_67890"
    by (simp only: t[of "''67890''" "[]", THEN conjunct1, rule_format])
  have "\<exists>i<length [entry_12345, entry_67890]. [entry_12345, entry_67890] ! i = entry_12345
          \<and> appid entry_12345 \<in> set [''67890'', ''12345'']
          \<and> (\<forall>j<i. appid ([entry_12345, entry_67890] ! j) \<notin> set [''67890'', ''12345''])"
    by (rule exI[of _ 0]) (simp add: entry_12345_def entry_67890_def)
  then have b: "fst (findByAppId ''darwin'' node_posix both_installed
                  (Many [''67890'', ''12345'']) unprobed) = Resolved entry_12345"
    by (simp only: t[of "[]" "[''67890'', ''12345'']", THEN conjunct2, THEN conjunct1, rule_format])
  have "\<forall>e\<in>set [entry_12345, entry_67890]. appid e \<noteq> ''1234''"
    by (simp add: entry_12345_def entry_67890_def)
  then have c: "fst (findByAppId ''darwin'' node_posix both_installed (One ''1234'') unprobed)
     = Rejected (GameEntryNotFound ''1234'' STORE_ID)"
    by (simp only: t[of "''1234''" "[]", THEN conjunct2, THEN conjunct2, THEN conjunct1,
                     rule_format])
  have "\<forall>e\<in>set [entry_12345, entry_67890]. appid e \<notin> set [''1'', ''2'']"
    by (simp add: entry_12345_def entry_67890_def)
  then have d: "fst (findByAppId ''darwin'' node_posix both_installed (Many [''1'', ''2'']) unprobed)
     = Rejected (GameEntryNotFound (join_comma [''1'', ''2'']) STORE_ID)"
    by (simp only: t[of "[]" "[''1'', ''2'']", THEN conjunct2, THEN conjunct2, THEN conjunct2,
                     rule_format])
  from ag a b c d show ?thesis
    by (simp add: STORE_ID_def)
qed

text \<open>
  C7.  The macOS enumeration.  Every entry of its result comes from a directory
  listed under \<open>games\<close> whose metadata file was read and parsed and names a non-empty
  install directory that \<open>fs.stat\<close> finds.  The result is the concatenation, in the
  order of the listing, of what each candidate contributes on its own, so a candidate
  that contributes nothing stops nothing; a candidate whose metadata names no install
  directory, an empty one, or one that \<open>fs.stat\<close> does not find contributes nothing.
  When the data directory is absent the result is the empty list and nothing is logged.
  In the scenario with the candidates 12345 and 67890 of which only the first has its
  install directory on disk, the result is the one entry of 12345.
\<close>

theorem macos_enumeration:
  "(\<forall>es e. fst (getGameEntriesMacOS rt w) = Resolved es \<longrightarrow> e \<in> set es \<longrightarrow>
       gamePath e \<noteq> [] \<and> stat w (gamePath e) = Resolved ()
     \<and> (\<exists>gameDirs gameId gameInfoData gameInfo.
           readdir w (gamesPath_of rt w) = Resolved gameDirs \<and> gameId \<in> set gameDirs
         \<and> readFile w (path_join rt [gamesPath_of rt w, gameId, ''gameinfo''])
             = Resolved gameInfoData
         \<and> JSON_parse rt gameInfoData = Inr (JValue gameInfo)
         \<and> map_of gameInfo ''installDirectory'' = Some (gamePath e)))
 \<and> (\<forall>gameDirs. stat w (gogDataPath_of rt w) = Resolved () \<longrightarrow>
       readdir w (gamesPath_of rt w) = Resolved gameDirs \<longrightarrow>
       fst (getGameEntriesMacOS rt w) =
         Resolved (concat (map (\<lambda>gameId. fst (macos_candidate rt w (gamesPath_of rt w) gameId))
                            gameDirs)))
 \<and> (\<forall>gamesPath gameId gameInfoData gameInfo.
       readFile w (path_join rt [gamesPath, gameId, ''gameinfo'']) = Resolved gameInfoData \<longrightarrow>
       JSON_parse rt gameInfoData = Inr (JValue gameInfo) \<longrightarrow>
       (\<forall>p. map_of gameInfo ''installDirectory'' = Some p \<longrightarrow>
              p = [] \<or> (\<exists>err. stat w p = Rejected err)) \<longrightarrow>
       fst (macos_candidate rt w gamesPath gameId) = [])
 \<and> (\<forall>err. stat w (gogDataPath_of rt w) = Rejected err \<longrightarrow>
       getGameEntriesMacOS rt w = (Resolved [], []))
 \<and> getGameEntriesMacOS node_posix one_installed
      = (Resolved [\<lparr>appid = ''12345'', name = ''Test Game 1'', gamePath = ''/Games/Test Game 1'',
                    gameStoreId = ''gog''\<rparr>],
         [Log Debug ''GOG game directory not found''])"
proof -
  have a: "\<forall>es e. fst (getGameEntriesMacOS rt w) = Resolved es \<longrightarrow> e \<in> set es \<longrightarrow>
       gamePath e \<noteq> [] \<and> stat w (gamePath e) = Resolved ()
     \<and> (\<exists>gameDirs gameId gameInfoData gameInfo.
           readdir w (gamesPath_of rt w) = Resolved gameDirs \<and> gameId \<in> set gameDirs
         \<and> readFile w (path_join rt [gamesPath_of rt w, gameId, ''gameinfo''])
             = Resolved gameInfoData
         \<and> JSON_parse rt gameInfoData = Inr (JValue gameInfo)
         \<and> map_of gameInfo ''installDirectory'' = Some (gamePath e))"
  proof (intro allI impI)
    fix es e
    assume "fst (getGameEntriesMacOS rt w) = Resolved es" and "e \<in> set es"
    from getGameEntriesMacOS_entries[OF this] obtain gameDirs gameId where
      d: "readdir w (gamesPath_of rt w) = Resolved gameDirs" "gameId \<in> set gameDirs"
         "e \<in> set (fst (macos_candidate rt w (gamesPath_of rt w) gameId))"
      by (auto simp: macos_paths)
    from macos_candidate_entry[OF d(3)] d(1,2)
    show "gamePath e \<noteq> [] \<and> stat w (gamePath e) = Resolved ()
     \<and> (\<exists>gameDirs gameId gameInfoData gameInfo.
           readdir w (gamesPath_of rt w) = Resolved gameDirs \<and> gameId \<in> set gameDirs
         \<and> readFile w (path_join rt [gamesPath_of rt w, gameId, ''gameinfo''])
             = Resolved gameInfoData
         \<and> JSON_parse rt gameInfoData = Inr (JValue gameInfo)
         \<and> map_of gameInfo ''installDirectory'' = Some (gamePath e))"
      by blast
  qed
  have e: "getGameEntriesMacOS node_posix one_installed
      = (Resolved [\<lparr>appid = ''12345'', name = ''Test Game 1'', gamePath = ''/Games/Test Game 1'',
                    gameStoreId = ''gog''\<rparr>],
         [Log Debug ''GOG game directory not found''])"
    by code_simp
  from a getGameEntriesMacOS_concat[of w rt] macos_candidate_skips[of w rt]
       getGameEntriesMacOS_absent[of w rt] e
  show ?thesis by blast
qed

theorem macos_enumeration_witness:
  "stat one_installed (gogDataPath_of node_posix one_installed) = Resolved ()
 \<and> readdir one_installed (gamesPath_of node_posix one_installed) = Resolved [''12345'', ''67890'']
 \<and> fst (macos_candidate node_posix one_installed (gamesPath_of node_posix one_installed) ''12345'')
     = [entry_12345]
 \<and> fst (macos_candidate node_posix one_installed (gamesPath_of node_posix one_installed) ''67890'')
     = []
 \<and> fst (getGameEntriesMacOS node_posix one_installed) = Resolved [entry_12345]
 \<and> stat bare_world (gogDataPath_of node_posix bare_world) = Rejected ENOENT
 \<and> getGameEntriesMacOS node_posix bare_world = (Resolved [], [])"
proof -
  note t = macos_enumeration[of node_posix one_installed]
  note u = macos_enumeration[of node_posix bare_world]
  have s: "stat one_installed (gogDataPath_of node_posix one_installed) = Resolved ()"
    by code_simp
  have d: "readdir one_installed (gamesPath_of node_posix one_installed)
             = Resolved [''12345'', ''67890'']"
    by code_simp
  have c1: "fst (macos_candidate node_posix one_installed
                   (gamesPath_of node_posix one_installed) ''12345'') = [entry_12345]"
    by code_simp
  have f: "readFile one_installed
             (path_join node_posix [gamesPath_of node_posix one_installed, ''67890'', ''gameinfo''])
           = Resolved gameinfo_67890"
    by code_simp
  have j: "JSON_parse node_posix gameinfo_67890
             = Inr (JValue [(''gameId'', ''67890''), (''name'', ''Test Game 2''),
                            (''installDirectory'', ''/Games/Test Game 2'')])"
    by code_simp
  have m: "stat one_installed ''/Games/Test Game 2'' = Rejected ENOENT"
    by code_simp
  have "\<forall>p. map_of [(''gameId'', ''67890''), (''name'', ''Test Game 2''),
                      (''installDirectory'', ''/Games/Test Game 2'')] ''installDirectory'' = Some p
          \<longrightarrow> p = [] \<or> (\<exists>err. stat one_installed p = Rejected err)"
    using m by simp
  with t f j
  have c2: "fst (macos_candidate node_posix one_installed
                   (gamesPath_of node_posix one_installed) ''67890'') = []"
    by blast
  from t s d
  have "fst (getGameEntriesMacOS node_posix one_installed) =
         Resolved (concat (map (\<lambda>gameId. fst (macos_candidate node_posix one_installed
                     (gamesPath_of node_posix one_installed) gameId)) [''12345'', ''67890'']))"
    by blast
  with c1 c2 have r: "fst (getGameEntriesMacOS node_posix one_installed) = Resolved [entry_12345]"
    by simp
  have b: "stat bare_world (gogDataPath_of node_posix bare_world) = Rejected ENOENT"
    by code_simp
  with u have "getGameEntriesMacOS node_posix bare_world = (Resolved [], [])"
    by blast
  with s d c1 c2 r b show ?thesis by simp
qed

text \<open>
  C8.  \<open>reloadGames\<close> resolves with no value and replaces \<open>mCache\<close>, whatever it
  held, by a fresh enumeration of the operating system as it is at the reload; the
  next \<open>allGames\<close> returns that enumeration without enumerating again.
\<close>

theorem reloadGames_refreshes:
  "(let (r, this1, evs1) = reloadGames platform rt w1 this;
        (p2, this2, evs2) = allGames platform rt w2 this1
    in r = Resolved ()
       \<and> mCache this1 = Some (fst (getGameEntries platform rt w1 this))
       \<and> mClientPath this1 = mClientPath this
       \<and> count_list evs1 (Call ''getGameEntries'') = 1
       \<and> p2 = fst (getGameEntries platform rt w1 this) \<and> this2 = this1 \<and> evs2 = [])"
  by (simp add: reloadGames_eq allGames_cached getGameEntries_calls)

theorem reloadGames_refreshes_witness:
  "fst (allGames ''darwin'' node_posix one_installed
         (fst (snd (allGames ''darwin'' node_posix both_installed unprobed))))
     = Resolved [entry_12345, entry_67890]
 \<and> fst (reloadGames ''darwin'' node_posix one_installed
         (fst (snd (allGames ''darwin'' node_posix both_installed unprobed))))
     = Resolved ()
 \<and> fst (allGames ''darwin'' node_posix both_installed
         (fst (snd (reloadGames ''darwin'' node_posix one_installed
            (fst (snd (allGames ''darwin'' node_posix both_installed unprobed)))))))
     = Resolved [entry_12345]"
proof -
  let ?st = "fst (snd (allGames ''darwin'' node_posix both_installed unprobed))"
  have stale: "fst (allGames ''darwin'' node_posix one_installed ?st)
     = Resolved [entry_12345, entry_67890]"
    by (simp add: both_first_call allGames_cached)
  from reloadGames_refreshes[of "''darwin''" node_posix one_installed ?st both_installed]
  have "fst (reloadGames ''darwin'' node_posix one_installed ?st) = Resolved ()
      \<and> fst (allGames ''darwin'' node_posix both_installed
           (fst (snd (reloadGames ''darwin'' node_posix one_installed ?st))))
        = Resolved [entry_12345]"
    by (simp add: one_enumerated split: prod.splits)
  with stale show ?thesis by simp
qed

text \<open>
  C9.  For every path and every fallback function, \<open>identifyGame\<close> resolves with the
  disjunction of the marker-file check (\<open>fs.stat\<close> of \<open>gog.ico\<close> joined to the path
  succeeds) and the boolean the fallback resolves with; it logs one warning exactly
  when the two differ, and the result is the same disjunction either way.  A fallback
  that rejects makes the method reject with the same error.
\<close>

theorem identifyGame_or:
  "identifyGame rt w p fallback =
     (case fallback p of
        Rejected err \<Rightarrow> (Rejected err, [])
      | Resolved fb \<Rightarrow>
          (Resolved ((stat w (path_join rt [p, ''gog.ico'']) = Resolved ()) \<or> fb),
           if (stat w (path_join rt [p, ''gog.ico'']) = Resolved ()) \<noteq> fb
           then [Log Warn ''(gog) game identification inconclusive''] else []))"
  by (cases "fallback p") (simp_all add: identifyGame_def fileExists_eq)

theorem identifyGame_or_witness:
  "identifyGame node_posix one_installed ''/Games/Test Game 1'' (\<lambda>p. Resolved True)
     = (Resolved True, [Log Warn ''(gog) game identification inconclusive''])
 \<and> identifyGame node_posix one_installed ''/Games/Test Game 1'' (\<lambda>p. Resolved False)
     = (Resolved False, [])"
proof -
  have "stat one_installed (path_join node_posix [''/Games/Test Game 1'', ''gog.ico''])
          = Rejected ENOENT"
    by code_simp
  then show ?thesis
    by (simp add: identifyGame_or)
qed

text \<open>
  C10.  Every entry that \<open>getGameEntriesWindows\<close>, \<open>getGameEntriesMacOS\<close> or
  \<open>getGameEntries\<close> resolves with has the store id \<open>gog\<close>; so has every entry of the
  snapshot an object a program can hold has memoized, and every entry that
  \<open>allGames\<close>, \<open>findByName\<close> and \<open>findByAppId\<close> resolve with on such an object.
\<close>

theorem store_id_invariant:
  "(\<forall>es. fst (getGameEntriesWindows w this) = Resolved es \<longrightarrow>
         (\<forall>e\<in>set es. gameStoreId e = ''gog''))
 \<and> (\<forall>es. fst (getGameEntriesMacOS rt w) = Resolved es \<longrightarrow>
         (\<forall>e\<in>set es. gameStoreId e = ''gog''))
 \<and> (\<forall>es. fst (getGameEntries platform rt w this) = Resolved es \<longrightarrow>
         (\<forall>e\<in>set es. gameStoreId e = ''gog''))
 \<and> (reach platform rt pending this \<longrightarrow>
      (\<forall>es. mCache this = Some (Resolved es) \<longrightarrow> (\<forall>e\<in>set es. gameStoreId e = ''gog''))
    \<and> (\<forall>es. fst (allGames platform rt w this) = Resolved es \<longrightarrow>
           (\<forall>e\<in>set es. gameStoreId e = ''gog''))
    \<and> (\<forall>r e. findByName platform rt w namePattern this = Inr r \<longrightarrow> fst r = Resolved e \<longrightarrow>
           gameStoreId e = ''gog'')
    \<and> (\<forall>e. fst (findByAppId platform rt w appId this) = Resolved e \<longrightarrow>
           gameStoreId e = ''gog''))"
proof -
  have a: "\<forall>es. fst (getGameEntriesWindows w this) = Resolved es \<longrightarrow>
         (\<forall>e\<in>set es. gameStoreId e = ''gog'')"
    using getGameEntriesWindows_store[of w this] by (auto simp: STORE_ID_def)
  have b: "\<forall>es. fst (getGameEntriesMacOS rt w) = Resolved es \<longrightarrow>
         (\<forall>e\<in>set es. gameStoreId e = ''gog'')"
    using getGameEntriesMacOS_store[of rt w] by (auto simp: STORE_ID_def)
  have c: "\<forall>es. fst (getGameEntries platform rt w this) = Resolved es \<longrightarrow>
         (\<forall>e\<in>set es. gameStoreId e = ''gog'')"
    using getGameEntries_store[of platform rt w this] by (auto simp: STORE_ID_def)
  have d: ?thesis if r: "reach platform rt pending this"
  proof -
    have ok: "\<And>es e. fst (allGames platform rt w this) = Resolved es \<Longrightarrow> e \<in> set es \<Longrightarrow>
                 gameStoreId e = ''gog''"
      using allGames_ok[OF r, of w] by (auto simp: snapshot_ok_def list_all_iff STORE_ID_def)
    have d1: "\<forall>es. mCache this = Some (Resolved es) \<longrightarrow> (\<forall>e\<in>set es. gameStoreId e = ''gog'')"
      using reach_cache_ok[OF r] by (auto simp: snapshot_ok_def list_all_iff STORE_ID_def)
    have d2: "\<forall>es. fst (allGames platform rt w this) = Resolved es \<longrightarrow>
           (\<forall>e\<in>set es. gameStoreId e = ''gog'')"
      using ok by blast
    have d3: "\<forall>r e. findByName platform rt w namePattern this = Inr r \<longrightarrow> fst r = Resolved e \<longrightarrow>
           gameStoreId e = ''gog''"
    proof (intro allI impI)
      fix r e
      assume f: "findByName platform rt w namePattern this = Inr r" and g: "fst r = Resolved e"
      then obtain re_test where re: "RegExp rt (''^'' @ namePattern @ ''$'') = Inr re_test"
        by (cases "RegExp rt (''^'' @ namePattern @ ''$'')") (auto simp: findByName_def)
      from f g show "gameStoreId e = ''gog''"
        unfolding findByName_eq[OF re]
        by (cases "fst (allGames platform rt w this)")
           (auto split: option.splits dest!: find_in_set intro: ok)
    qed
    have d4: "\<forall>e. fst (findByAppId platform rt w appId this) = Resolved e \<longrightarrow>
           gameStoreId e = ''gog''"
    proof (intro allI impI)
      fix e
      assume f: "fst (findByAppId platform rt w appId this) = Resolved e"
      then show "gameStoreId e = ''gog''"
        by (cases "fst (allGames platform rt w this)")
           (auto simp: findByAppId_def Let_def split: prod.splits option.splits
                 dest!: find_in_set intro: ok)
    qed
    from a b c d1 d2 d3 d4 show ?thesis by blast
  qed
  from a b c d show ?thesis by blast
qed

theorem store_id_invariant_witness:
  "reach ''darwin'' node_posix False unprobed
 \<and> fst (allGames ''darwin'' node_posix both_installed unprobed)
     = Resolved [entry_12345, entry_67890]
 \<and> gameStoreId entry_12345 = ''gog'' \<and> gameStoreId entry_67890 = ''gog''"
proof -
  have ag: "fst (allGames ''darwin'' node_posix both_installed unprobed)
     = Resolved [entry_12345, entry_67890]"
    by (simp add: both_first_call)
  note t = store_id_invariant[of both_installed unprobed node_posix "''darwin''" False "[]" "One []"]
  from t have "reach ''darwin'' node_posix False unprobed \<longrightarrow>
      (\<forall>es. fst (allGames ''darwin'' node_posix both_installed unprobed) = Resolved es \<longrightarrow>
           (\<forall>e\<in>set es. gameStoreId e = ''gog''))"
    by simp
  with darwin_reach ag have "\<forall>e\<in>set [entry_12345, entry_67890]. gameStoreId e = ''gog''"
    by simp
  with darwin_reach ag show ?thesis by simp
qed

end
